theory Spec2Isabelle
  imports Complex_Main "HOL-Library.AList"
begin

section \<open>Data model of the knowledge graph\<close>

text \<open>
  The engine is the class \<open>KnowledgeGraphManager\<close>. Its persisted state is one JSON
  document holding a \<open>KnowledgeGraph\<close>. JavaScript strings are modelled as \<open>string\<close>;
  every literal the engine compares against is ASCII. The TypeScript field names
  \<open>from\<close>, \<open>to\<close> and \<open>observations\<close> of \<open>Relation\<close> are written \<open>rfrom\<close>, \<open>rto\<close> and
  \<open>robservations\<close> (\<open>from\<close> is a keyword here, and the two records cannot share a field).
  \<open>entityType\<close> is a \<open>string\<close>: the static type \<open>EntityType\<close> is erased at run time,
  which is why \<open>validateEntityType\<close> exists. The optional \<open>embedding\<close> field of an entity
  is never read by the engine; it is carried as an optional list of numbers.
\<close>

record Entity =
  name :: string
  entityType :: string
  observations :: "string list"
  embedding :: "rat list option"

record Relation =
  rfrom :: string
  rto :: string
  relationType :: string
  robservations :: "string list option"

record KnowledgeGraph =
  entities :: "Entity list"
  relations :: "Relation list"

definition validEntityTypes :: "string list" where
  "validEntityTypes =
    [''project'', ''task'', ''milestone'', ''resource'', ''teamMember'', ''note'',
     ''document'', ''issue'', ''risk'', ''decision'', ''dependency'', ''component'',
     ''stakeholder'', ''change'', ''status'', ''priority'']"

definition isValidEntityType :: "string \<Rightarrow> bool" where
  "isValidEntityType type \<longleftrightarrow> type \<in> set validEntityTypes"

definition VALID_RELATION_TYPES :: "string list" where
  "VALID_RELATION_TYPES =
    [''part_of'', ''depends_on'', ''assigned_to'', ''created_by'', ''modified_by'',
     ''related_to'', ''blocks'', ''manages'', ''contributes_to'', ''documents'',
     ''scheduled_for'', ''responsible_for'', ''reports_to'', ''categorized_as'',
     ''required_for'', ''discovered_in'', ''resolved_by'', ''impacted_by'',
     ''stakeholder_of'', ''prioritized_as'', ''has_status'', ''has_priority'',
     ''precedes'']"

definition VALID_STATUS_VALUES :: "string list" where
  "VALID_STATUS_VALUES = [''active'', ''completed'', ''pending'', ''blocked'', ''cancelled'']"

definition VALID_PRIORITY_VALUES :: "string list" where
  "VALID_PRIORITY_VALUES = [''high'', ''low'']"

text \<open>Every \<open>throw new Error(...)\<close> of the engine, and the \<open>TypeError\<close> the runtime raises
  when a property of \<open>undefined\<close> is read or a non-function is called.\<close>

datatype error =
    EntityExists string
  | InvalidEntityType string
  | EntityNotFound string
  | InvalidRelationType string
  | RelationExists string string string
  | InvalidStatusValue string
  | InvalidPriorityValue string
  | TaskNotFound string
  | ProjectNotFound string
  | ResourceNotFound string string
  | TypeError

section \<open>Graph store\<close>

text \<open>
  The memory file is the state every operation threads: \<open>None\<close> is a missing or
  unparsable file, for which \<open>loadGraph\<close> answers the empty graph. \<open>saveGraph\<close> overwrites
  the file. An operation that throws before \<open>saveGraph\<close> leaves the file as it was.
  A failing write of the file itself is outside the model.
\<close>

type_synonym store = "KnowledgeGraph option"

definition loadGraph :: "store \<Rightarrow> KnowledgeGraph" where
  "loadGraph fs = (case fs of None \<Rightarrow> \<lparr>entities = [], relations = []\<rparr> | Some graph \<Rightarrow> graph)"

definition saveGraph :: "KnowledgeGraph \<Rightarrow> store" where
  "saveGraph graph = Some graph"

subsection \<open>Status and priority as relations\<close>

text \<open>\<open>s.split(':')\<close> without a limit: the pieces between the separators, at least one.\<close>

fun split_on :: "char \<Rightarrow> string \<Rightarrow> string list" where
  "split_on sep [] = [[]]"
| "split_on sep (c # cs) =
     (if c = sep then [] # split_on sep cs
      else (case split_on sep cs of [] \<Rightarrow> [[c]] | p # ps \<Rightarrow> (c # p) # ps))"

text \<open>Array indexing \<open>xs[i]\<close>: \<open>undefined\<close> (here \<open>None\<close>) out of range.\<close>

fun index_opt :: "'a list \<Rightarrow> nat \<Rightarrow> 'a option" where
  "index_opt [] i = None"
| "index_opt (x # xs) 0 = Some x"
| "index_opt (x # xs) (Suc i) = index_opt xs i"




definition setEntityStatus :: "string \<Rightarrow> string \<Rightarrow> store \<Rightarrow> (error + unit) \<times> store" where
  "setEntityStatus entityName statusValue fs =
     (if statusValue \<notin> set VALID_STATUS_VALUES then (Inl (InvalidStatusValue statusValue), fs)
      else
        let graph = loadGraph fs;
            kept = filter (\<lambda>r. \<not> (rfrom r = entityName \<and> relationType r = ''has_status''))
                     (relations graph);
            added = kept @ [\<lparr>rfrom = entityName, rto = ''status:'' @ statusValue,
                             relationType = ''has_status'', robservations = None\<rparr>]
        in (Inr (), saveGraph (graph\<lparr>relations := added\<rparr>)))"

definition setEntityPriority :: "string \<Rightarrow> string \<Rightarrow> store \<Rightarrow> (error + unit) \<times> store" where
  "setEntityPriority entityName priorityValue fs =
     (if priorityValue \<notin> set VALID_PRIORITY_VALUES
      then (Inl (InvalidPriorityValue priorityValue), fs)
      else
        let graph = loadGraph fs;
            kept = filter (\<lambda>r. \<not> (rfrom r = entityName \<and> relationType r = ''has_priority''))
                     (relations graph);
            added = kept @ [\<lparr>rfrom = entityName, rto = ''priority:'' @ priorityValue,
                             relationType = ''has_priority'', robservations = None\<rparr>]
        in (Inr (), saveGraph (graph\<lparr>relations := added\<rparr>)))"

subsection \<open>Creating entities and relations\<close>

text \<open>The validation loop of \<open>createEntities\<close>: the first offending entity, in batch order,
  decides the error. Each name is compared with the entities of the loaded graph.\<close>

fun createEntities_validate :: "KnowledgeGraph \<Rightarrow> Entity list \<Rightarrow> error option" where
  "createEntities_validate graph [] = None"
| "createEntities_validate graph (entity # rest) =
     (if list_ex (\<lambda>e. name e = name entity) (entities graph)
      then Some (EntityExists (name entity))
      else if \<not> isValidEntityType (entityType entity)
      then Some (InvalidEntityType (entityType entity))
      else createEntities_validate graph rest)"

definition createEntities :: "Entity list \<Rightarrow> store \<Rightarrow> (error + KnowledgeGraph) \<times> store" where
  "createEntities batch fs =
     (let graph = loadGraph fs in
      case createEntities_validate graph batch of
        Some err \<Rightarrow> (Inl err, fs)
      | None \<Rightarrow>
          (let graph' = graph\<lparr>entities := entities graph @ batch\<rparr>
           in (Inr graph', saveGraph graph')))"

text \<open>The validation loop of \<open>createRelations\<close>, with the four checks in source order.\<close>

fun createRelations_validate :: "KnowledgeGraph \<Rightarrow> Relation list \<Rightarrow> error option" where
  "createRelations_validate graph [] = None"
| "createRelations_validate graph (relation # rest) =
     (if \<not> list_ex (\<lambda>e. name e = rfrom relation) (entities graph)
      then Some (EntityNotFound (rfrom relation))
      else if \<not> list_ex (\<lambda>e. name e = rto relation) (entities graph)
      then Some (EntityNotFound (rto relation))
      else if relationType relation \<notin> set VALID_RELATION_TYPES
      then Some (InvalidRelationType (relationType relation))
      else if list_ex (\<lambda>r. rfrom r = rfrom relation \<and> rto r = rto relation \<and>
                            relationType r = relationType relation) (relations graph)
      then Some (RelationExists (rfrom relation) (rto relation) (relationType relation))
      else createRelations_validate graph rest)"

definition createRelations :: "Relation list \<Rightarrow> store \<Rightarrow> (error + KnowledgeGraph) \<times> store" where
  "createRelations batch fs =
     (let graph = loadGraph fs in
      case createRelations_validate graph batch of
        Some err \<Rightarrow> (Inl err, fs)
      | None \<Rightarrow>
          (let graph' = graph\<lparr>relations := relations graph @ batch\<rparr>
           in (Inr graph', saveGraph graph')))"


subsection \<open>Searching\<close>

text \<open>
  \<open>toLowerCase\<close> on the letters \<open>A\<close> to \<open>Z\<close>; every other character is kept. (JavaScript
  also folds letters outside ASCII; the properties below hold for any folding.)
  \<open>s.startsWith(p)\<close> and \<open>s.includes(q)\<close> (here \<open>includes_str\<close>) are prefix and substring tests; the empty
  string is a substring of every string.
\<close>

definition lower_char :: "char \<Rightarrow> char" where
  "lower_char c =
     (case map_of (zip ''ABCDEFGHIJKLMNOPQRSTUVWXYZ'' ''abcdefghijklmnopqrstuvwxyz'') c of
        Some l \<Rightarrow> l
      | None \<Rightarrow> c)"

definition toLowerCase :: "string \<Rightarrow> string" where
  "toLowerCase s = map lower_char s"

fun startsWith :: "string \<Rightarrow> string \<Rightarrow> bool" where
  "startsWith s [] = True"
| "startsWith [] (p # ps) = False"
| "startsWith (c # cs) (p # ps) = (c = p \<and> startsWith cs ps)"

fun includes_str :: "string \<Rightarrow> string \<Rightarrow> bool" where
  "includes_str [] q = (q = [])"
| "includes_str (c # cs) q = (startsWith (c # cs) q \<or> includes_str cs q)"

text \<open>
  The merge loop of \<open>searchNodes\<close> over \<open>additionalRelations\<close>. It threads the three
  mutable locals \<open>matchingEntities\<close>, \<open>matchingEntityNames\<close> (a \<open>Set\<close>) and \<open>allRelations\<close>.
  An endpoint is added only when \<open>graph.entities.find\<close> finds an entity of that name.
\<close>

definition searchNodes_add_endpoint ::
    "KnowledgeGraph \<Rightarrow> string \<Rightarrow> Entity list \<times> string set \<Rightarrow> Entity list \<times> string set" where
  "searchNodes_add_endpoint graph endpoint acc =
     (case acc of (matchingEntities, matchingEntityNames) \<Rightarrow>
        if endpoint \<notin> matchingEntityNames then
          (case find (\<lambda>e. name e = endpoint) (entities graph) of
             Some found \<Rightarrow> (matchingEntities @ [found], insert endpoint matchingEntityNames)
           | None \<Rightarrow> (matchingEntities, matchingEntityNames))
        else (matchingEntities, matchingEntityNames))"

fun searchNodes_merge ::
    "KnowledgeGraph \<Rightarrow> Relation list \<Rightarrow> (Entity list \<times> string set) \<times> Relation list \<Rightarrow>
     (Entity list \<times> string set) \<times> Relation list" where
  "searchNodes_merge graph [] acc = acc"
| "searchNodes_merge graph (relation # rest) (found, allRelations) =
     (if \<not> list_ex (\<lambda>r. rfrom r = rfrom relation \<and> rto r = rto relation \<and>
                          relationType r = relationType relation) allRelations
      then searchNodes_merge graph rest
             (searchNodes_add_endpoint graph (rto relation)
                (searchNodes_add_endpoint graph (rfrom relation) found),
              allRelations @ [relation])
      else searchNodes_merge graph rest (found, allRelations))"

definition searchNodes :: "string \<Rightarrow> store \<Rightarrow> KnowledgeGraph" where
  "searchNodes query fs =
     (let graph = loadGraph fs;
          lowerQuery = toLowerCase query;
          matchingEntities = filter (\<lambda>entity.
              includes_str (toLowerCase (name entity)) lowerQuery \<or>
              includes_str (toLowerCase (entityType entity)) lowerQuery \<or>
              list_ex (\<lambda>o'. includes_str (toLowerCase o') lowerQuery) (observations entity))
            (entities graph);
          matchingEntityNames = set (map name matchingEntities);
          matchingRelations = filter (\<lambda>relation.
              rfrom relation \<in> matchingEntityNames \<and> rto relation \<in> matchingEntityNames)
            (relations graph);
          additionalRelations = filter (\<lambda>relation.
              includes_str (toLowerCase (relationType relation)) lowerQuery \<or>
              (case robservations relation of
                 None \<Rightarrow> False
               | Some obs \<Rightarrow> list_ex (\<lambda>o'. includes_str (toLowerCase o') lowerQuery) obs))
            (relations graph)
      in case searchNodes_merge graph additionalRelations
                ((matchingEntities, matchingEntityNames), matchingRelations) of
           ((allEntities, allNames), allRelations) \<Rightarrow>
             \<lparr>entities = allEntities, relations = allRelations\<rparr>)"

section \<open>Semi-structured observations\<close>

text \<open>
  The engine reads a field of an entity with the expression
  \<open>observations.find(o => o.startsWith(P))?.split(':', 2)[1]?.trim()\<close>. \<open>split(':', 2)\<close>
  keeps the first two pieces; \<open>trim\<close> removes white space at both ends (the ASCII
  white space characters; strings with other white space are outside the model).
  The value is \<open>undefined\<close> (\<open>None\<close>) when no observation has the prefix.
\<close>

definition isWhiteSpace :: "char \<Rightarrow> bool" where
  "isWhiteSpace c \<longleftrightarrow> c \<in> set [CHR 0x09, CHR 0x0A, CHR 0x0B, CHR 0x0C, CHR 0x0D, CHR '' '']"

definition trim :: "string \<Rightarrow> string" where
  "trim s = rev (dropWhile isWhiteSpace (rev (dropWhile isWhiteSpace s)))"

definition obsField :: "string \<Rightarrow> string list \<Rightarrow> string option" where
  "obsField prefix obs =
     (case find (\<lambda>o'. startsWith o' prefix) obs of
        None \<Rightarrow> None
      | Some o' \<Rightarrow>
          (case index_opt (take 2 (split_on CHR '':'' o')) 1 of
             None \<Rightarrow> None
           | Some v \<Rightarrow> Some (trim v)))"

text \<open>\<open>v || d\<close> on an optional string: \<open>undefined\<close> and the empty string are falsy.\<close>

definition orDefault :: "string option \<Rightarrow> string \<Rightarrow> string" where
  "orDefault v d = (case v of None \<Rightarrow> d | Some s \<Rightarrow> if s = [] then d else s)"

section \<open>Dependency resolver\<close>

text \<open>
  \<open>getTaskDependencies\<close> builds a \<open>Map<string, DependencyNode>\<close>. A \<open>DependencyNode\<close> holds
  arrays of references to other nodes, and the nodes are mutated while they are shared.
  Every node is created once, as the value of the map at key \<open>task.name\<close>, and is never
  replaced; so a reference to a node is modelled by that key, the arrays \<open>dependsOn\<close> and
  \<open>dependedOnBy\<close> hold keys, and every read or write of a node goes through the map.
  The map keeps insertion order (\<open>Array.from(dependencyMap.values())\<close>): it is an
  association list, \<open>AList.update\<close> being \<open>Map.set\<close>.

  When the recursive call returns at once because the level exceeds \<open>depth\<close>, and the
  task has no node yet, \<open>dependencyMap.get(...)!\<close> is \<open>undefined\<close>: the following read of
  \<open>dependencyNode.dependedOnBy\<close> raises a \<open>TypeError\<close>.
\<close>

datatype direction = DependsOn | DependedOnBy

record DependencyNode =
  task :: Entity
  dependsOn :: "string list"
  dependedOnBy :: "string list"
  level :: nat

type_synonym dependencyMap = "(string \<times> DependencyNode) list"

text \<open>Mutation of the node stored at a key; the arrays of a key without node are empty.\<close>

definition node_update ::
    "string \<Rightarrow> (DependencyNode \<Rightarrow> DependencyNode) \<Rightarrow> dependencyMap \<Rightarrow> dependencyMap" where
  "node_update k f m = (case map_of m k of None \<Rightarrow> m | Some n \<Rightarrow> AList.update k (f n) m)"

definition node_dependsOn :: "dependencyMap \<Rightarrow> string \<Rightarrow> string list" where
  "node_dependsOn m k = (case map_of m k of None \<Rightarrow> [] | Some n \<Rightarrow> dependsOn n)"

definition node_dependedOnBy :: "dependencyMap \<Rightarrow> string \<Rightarrow> string list" where
  "node_dependedOnBy m k = (case map_of m k of None \<Rightarrow> [] | Some n \<Rightarrow> dependedOnBy n)"

definition push_dependsOn :: "string \<Rightarrow> string \<Rightarrow> dependencyMap \<Rightarrow> dependencyMap" where
  "push_dependsOn k d m = node_update k (\<lambda>n. n\<lparr>dependsOn := dependsOn n @ [d]\<rparr>) m"

definition push_dependedOnBy :: "string \<Rightarrow> string \<Rightarrow> dependencyMap \<Rightarrow> dependencyMap" where
  "push_dependedOnBy k d m = node_update k (\<lambda>n. n\<lparr>dependedOnBy := dependedOnBy n @ [d]\<rparr>) m"

text \<open>The first part of \<open>addDependencies\<close>: create the node if the map has none for the
  task, then lower its level if this path is shorter.\<close>

definition enter_node :: "Entity \<Rightarrow> nat \<Rightarrow> direction \<Rightarrow> dependencyMap \<Rightarrow> dependencyMap" where
  "enter_node taskEntity currentLevel direction m =
     (let m1 = (if map_of m (name taskEntity) = None
                then AList.update (name taskEntity)
                       \<lparr>task = taskEntity, dependsOn = [], dependedOnBy = [],
                        level = (if direction = DependsOn then currentLevel else 0)\<rparr> m
                else m)
      in node_update (name taskEntity)
           (\<lambda>node. if direction = DependsOn \<and> currentLevel < level node
                    then node\<lparr>level := currentLevel\<rparr> else node) m1)"

text \<open>
  \<open>addDependencies\<close> and its loop over \<open>graph.relations\<close>. \<open>depth\<close> is the caller's number
  (an integer here), \<open>currentLevel\<close> counts up from 0. The recursion ends because the
  level grows towards \<open>depth\<close>.
\<close>

function addDependencies ::
    "KnowledgeGraph \<Rightarrow> int \<Rightarrow> Entity \<Rightarrow> nat \<Rightarrow> direction \<Rightarrow> dependencyMap \<Rightarrow>
     error + dependencyMap"
  and addDependencies_loop ::
    "KnowledgeGraph \<Rightarrow> int \<Rightarrow> Entity \<Rightarrow> nat \<Rightarrow> direction \<Rightarrow> Relation list \<Rightarrow>
     dependencyMap \<Rightarrow> error + dependencyMap"
where
  "addDependencies graph depth taskEntity currentLevel direction m =
     (if int currentLevel > depth then Inr m
      else addDependencies_loop graph depth taskEntity currentLevel direction
             (relations graph) (enter_node taskEntity currentLevel direction m))"
| "addDependencies_loop graph depth taskEntity currentLevel direction [] m = Inr m"
| "addDependencies_loop graph depth taskEntity currentLevel direction (relation # rest) m =
     (case direction of
        DependsOn \<Rightarrow>
          if relationType relation = ''depends_on'' \<and> rfrom relation = name taskEntity then
            (case find (\<lambda>e. name e = rto relation \<and> entityType e = ''task'') (entities graph) of
               None \<Rightarrow> addDependencies_loop graph depth taskEntity currentLevel direction rest m
             | Some dependencyTask \<Rightarrow>
                 if name dependencyTask \<notin> set (node_dependsOn m (name taskEntity)) then
                   (case addDependencies graph depth dependencyTask (currentLevel + 1)
                           DependsOn m of
                      Inl err \<Rightarrow> Inl err
                    | Inr m1 \<Rightarrow>
                        (case map_of m1 (name dependencyTask) of
                           None \<Rightarrow> Inl TypeError
                         | Some dependencyNode \<Rightarrow>
                             addDependencies_loop graph depth taskEntity currentLevel direction rest
                               (let m2 = push_dependsOn (name taskEntity) (name dependencyTask) m1
                                in if name taskEntity \<notin>
                                        set (node_dependedOnBy m2 (name dependencyTask))
                                   then push_dependedOnBy (name dependencyTask) (name taskEntity) m2
                                   else m2)))
                 else addDependencies_loop graph depth taskEntity currentLevel direction rest m)
          else addDependencies_loop graph depth taskEntity currentLevel direction rest m
      | DependedOnBy \<Rightarrow>
          if relationType relation = ''depends_on'' \<and> rto relation = name taskEntity then
            (case find (\<lambda>e. name e = rfrom relation \<and> entityType e = ''task'') (entities graph) of
               None \<Rightarrow> addDependencies_loop graph depth taskEntity currentLevel direction rest m
             | Some dependentTask \<Rightarrow>
                 if name dependentTask \<notin> set (node_dependedOnBy m (name taskEntity)) then
                   (case addDependencies graph depth dependentTask (currentLevel + 1)
                           DependedOnBy m of
                      Inl err \<Rightarrow> Inl err
                    | Inr m1 \<Rightarrow>
                        (case map_of m1 (name dependentTask) of
                           None \<Rightarrow> Inl TypeError
                         | Some dependentNode \<Rightarrow>
                             addDependencies_loop graph depth taskEntity currentLevel direction rest
                               (let m2 = push_dependedOnBy (name taskEntity) (name dependentTask) m1
                                in if name taskEntity \<notin>
                                        set (node_dependsOn m2 (name dependentTask))
                                   then push_dependsOn (name dependentTask) (name taskEntity) m2
                                   else m2)))
                 else addDependencies_loop graph depth taskEntity currentLevel direction rest m)
          else addDependencies_loop graph depth taskEntity currentLevel direction rest m)"
  by pat_completeness auto

termination
  by (relation "measures
        [\<lambda>x. case x of
               Inl (graph, depth, taskEntity, currentLevel, direction, m) \<Rightarrow>
                 if int currentLevel > depth then 0
                 else 2 * nat (depth + 1 - int currentLevel) + 1
             | Inr (graph, depth, taskEntity, currentLevel, direction, rels, m) \<Rightarrow>
                 if int currentLevel > depth then 1
                 else 2 * nat (depth + 1 - int currentLevel),
         \<lambda>x. case x of
               Inl (graph, depth, taskEntity, currentLevel, direction, m) \<Rightarrow> 0
             | Inr (graph, depth, taskEntity, currentLevel, direction, rels, m) \<Rightarrow> length rels]")
    auto

text \<open>
  The serializable entry of a node: the node itself, with the names its arrays refer
  to, and the task's status (default \<open>not_started\<close>), due date and assignee.
\<close>

record DependencyInfo = DependencyNode +
  status :: string
  dueDate :: "string option"
  assignee :: "string option"

fun getTaskAssignee_loop :: "KnowledgeGraph \<Rightarrow> string \<Rightarrow> Relation list \<Rightarrow> string option" where
  "getTaskAssignee_loop graph taskName [] = None"
| "getTaskAssignee_loop graph taskName (relation # rest) =
     (if relationType relation = ''assigned_to'' \<and> rfrom relation = taskName then
        (case find (\<lambda>e. name e = rto relation \<and> entityType e = ''teamMember'')
                (entities graph) of
           Some teamMember \<Rightarrow> Some (name teamMember)
         | None \<Rightarrow> getTaskAssignee_loop graph taskName rest)
      else getTaskAssignee_loop graph taskName rest)"

definition getTaskAssignee :: "KnowledgeGraph \<Rightarrow> string \<Rightarrow> string option" where
  "getTaskAssignee graph taskName = getTaskAssignee_loop graph taskName (relations graph)"

definition serializeNode :: "KnowledgeGraph \<Rightarrow> DependencyNode \<Rightarrow> DependencyInfo" where
  "serializeNode graph node =
     \<lparr>task = task node, dependsOn = dependsOn node, dependedOnBy = dependedOnBy node,
      level = level node,
      status = orDefault (obsField ''Status:'' (observations (task node))) ''not_started'',
      dueDate = obsField ''DueDate:'' (observations (task node)),
      assignee = getTaskAssignee graph (name (task node))\<rparr>"

subsection \<open>Critical path\<close>

text \<open>
  \<open>findPaths\<close> pushes every path it completes onto \<open>allPaths\<close>; the model returns the
  paths found, in the order of the pushes. A node is skipped when it is already on
  \<open>path\<close> (the path before \<open>current\<close> was added), so the search ends.
\<close>

function findPaths ::
    "(string \<times> string list) list \<Rightarrow> string list \<Rightarrow> string \<Rightarrow> string list \<Rightarrow> string list list"
where
  "findPaths adjacencyList endNodes current path =
     (if current \<in> set endNodes then [path @ [current]]
      else concat (map (\<lambda>next. if next \<notin> set path
                                then findPaths adjacencyList endNodes next (path @ [current])
                                else [])
             (case map_of adjacencyList current of None \<Rightarrow> [] | Some nextNodes \<Rightarrow> nextNodes)))"
  by pat_completeness auto

termination
proof (relation "measure (\<lambda>(adjacencyList, endNodes, current, path).
          2 * card (fst ` set adjacencyList - set path) +
          (if current \<in> set path then 1 else 0))", goal_cases)
  case 1
  show ?case by simp
next
  case (2 adjacencyList endNodes current path nxt)
  show ?case
  proof (cases "current \<in> set path")
    case True
    then have "fst ` set adjacencyList - set (path @ [current]) = fst ` set adjacencyList - set path"
      by auto
    with True 2 show ?thesis
      by auto
  next
    case False
    from 2 have "map_of adjacencyList current \<noteq> None"
      by (cases "map_of adjacencyList current") auto
    then have "current \<in> fst ` set adjacencyList"
      by (simp add: map_of_eq_None_iff)
    with False have mem: "current \<in> fst ` set adjacencyList - set path"
      by simp
    have "fst ` set adjacencyList - set (path @ [current]) =
          (fst ` set adjacencyList - set path) - {current}"
      by auto
    moreover have "card ((fst ` set adjacencyList - set path) - {current}) <
          card (fst ` set adjacencyList - set path)"
      using mem by (intro card_Diff1_less) auto
    ultimately show ?thesis
      using False by auto
  qed
qed

definition calculateCriticalPath :: "KnowledgeGraph \<Rightarrow> DependencyInfo list \<Rightarrow> string list" where
  "calculateCriticalPath graph dependencies =
     (let initial = fold (\<lambda>dep adj. AList.update (name (task dep)) [] adj) dependencies [];
          adjacencyList =
            fold (\<lambda>dep adj.
                    fold (\<lambda>dependsOn' adj'.
                            AList.update dependsOn'
                              ((case map_of adj' dependsOn' of None \<Rightarrow> [] | Some l \<Rightarrow> l) @
                               [name (task dep)]) adj')
                      (dependsOn dep) adj)
              dependencies initial;
          startNodes = map (\<lambda>dep. name (task dep)) (filter (\<lambda>dep. dependsOn dep = []) dependencies);
          endNodes = map (\<lambda>dep. name (task dep)) (filter (\<lambda>dep. dependedOnBy dep = []) dependencies);
          allPaths = concat (map (\<lambda>start. findPaths adjacencyList endNodes start []) startNodes)
      in case sort_key (\<lambda>p. - int (length p)) allPaths of
           [] \<Rightarrow> []
         | longest # others \<Rightarrow> longest)"

subsection \<open>getTaskDependencies\<close>

fun findProjectName :: "KnowledgeGraph \<Rightarrow> string \<Rightarrow> Relation list \<Rightarrow> string option" where
  "findProjectName graph taskName [] = None"
| "findProjectName graph taskName (relation # rest) =
     (if relationType relation = ''part_of'' \<and> rfrom relation = taskName then
        (case find (\<lambda>e. name e = rto relation \<and> entityType e = ''project'') (entities graph) of
           Some project \<Rightarrow> Some (name project)
         | None \<Rightarrow> findProjectName graph taskName rest)
      else findProjectName graph taskName rest)"

text \<open>The returned object; the three fields of \<open>summary\<close> are fields of the record, and
  \<open>projectName\<close> is the field \<open>taskProject\<close>.
  \<open>depth\<close> has the default 2 in the source and is always passed here.\<close>

record TaskDependencies =
  mainTask :: Entity
  taskProject :: "string option"
  dependencies :: "DependencyInfo list"
  criticalPath :: "string list"
  totalDependencies :: int
  maxDepth :: int
  blockedBy :: nat

definition getTaskDependencies :: "string \<Rightarrow> int \<Rightarrow> store \<Rightarrow> error + TaskDependencies" where
  "getTaskDependencies taskName depth fs =
     (let graph = loadGraph fs in
      case find (\<lambda>e. name e = taskName \<and> entityType e = ''task'') (entities graph) of
        None \<Rightarrow> Inl (TaskNotFound taskName)
      | Some found \<Rightarrow>
          (case addDependencies graph depth found 0 DependsOn [] of
             Inl err \<Rightarrow> Inl err
           | Inr m1 \<Rightarrow>
               (case addDependencies graph depth found 0 DependedOnBy m1 of
                  Inl err \<Rightarrow> Inl err
                | Inr dependencyMap \<Rightarrow>
                    (let serializableDependencies =
                           sort_key level (map (serializeNode graph) (map snd dependencyMap))
                     in Inr \<lparr>mainTask = found,
                             taskProject = findProjectName graph taskName (relations graph),
                             dependencies = serializableDependencies,
                             criticalPath = calculateCriticalPath graph serializableDependencies,
                             totalDependencies = int (length serializableDependencies) - 1,
                             maxDepth = depth,
                             blockedBy = length (filter (\<lambda>d.
                                 name (task d) \<noteq> taskName \<and> status d \<noteq> ''completed'' \<and>
                                 obsField ''Status:'' (observations found) \<noteq> Some ''completed'')
                               serializableDependencies)\<rparr>))))"

section \<open>Cross-cutting analytics\<close>

text \<open>
  JavaScript numbers are modelled by exact rationals, with \<open>NaN\<close> and the two infinities
  where the engine can produce them; \<open>-0\<close> and \<open>0\<close> are one number. A quotient whose exact
  value lies within rounding error of a half-integer can round differently in double
  precision. \<open>Math.round\<close> rounds half up.

  \<open>new Date(s).getTime()\<close> and \<open>new Date().getTime()\<close> depend on the runtime and the clock:
  they are the parameters \<open>parseDate\<close> (\<open>None\<close> for an invalid date, whose time is \<open>NaN\<close>) and
  \<open>now\<close> of the operations that read dates.
\<close>

definition js_round :: "rat \<Rightarrow> int" where
  "js_round x = \<lfloor>x + 1 / 2\<rfloor>"

text \<open>The helper \<open>getProjectEntities\<close> of \<open>getProjectHealth\<close>; \<open>getResourceAllocation\<close>
  filters its resources with the same expression.\<close>

definition getProjectEntities :: "KnowledgeGraph \<Rightarrow> string \<Rightarrow> string \<Rightarrow> Entity list" where
  "getProjectEntities graph projectName type =
     filter (\<lambda>e. entityType e = type \<and>
                list_ex (\<lambda>r. rfrom r = name e \<and> rto r = projectName \<and>
                             relationType r = ''part_of'') (relations graph))
       (entities graph)"

text \<open>\<open>xs.filter(x => x.observations.find(...)?.split(':', 2)[1]?.trim() === s).length\<close>\<close>

definition countStatus :: "string \<Rightarrow> Entity list \<Rightarrow> nat" where
  "countStatus s es = length (filter (\<lambda>e. obsField ''Status:'' (observations e) = Some s) es)"

subsection \<open>Project health\<close>

text \<open>The timeline block: \<open>(timelineProgress, behindSchedule)\<close>, initially \<open>(0, false)\<close>.
  A comparison with \<open>NaN\<close> is false, so an invalid date leaves both untouched.\<close>

definition timelineMetrics ::
    "(string \<Rightarrow> int option) \<Rightarrow> int \<Rightarrow> string option \<Rightarrow> string option \<Rightarrow> rat \<Rightarrow> int \<times> bool" where
  "timelineMetrics parseDate now startDate endDate taskCompletionRate =
     (if orDefault startDate [] \<noteq> [] \<and> orDefault endDate [] \<noteq> [] then
        (case (parseDate (orDefault startDate []), parseDate (orDefault endDate [])) of
           (Some start, Some finish) \<Rightarrow>
             if finish > start then
               (let totalDuration = finish - start;
                    elapsed = now - start;
                    timeElapsedPercent =
                      min 100 (max 0 ((of_int elapsed / of_int totalDuration) * 100))
                in (js_round timeElapsedPercent, taskCompletionRate < timeElapsedPercent - 15))
             else (0, False)
         | _ \<Rightarrow> (0, False))
      else (0, False))"

text \<open>The local array \<open>healthFactors\<close>, from the four entity lists and \<open>behindSchedule\<close>.\<close>

definition healthFactors ::
    "Entity list \<Rightarrow> Entity list \<Rightarrow> Entity list \<Rightarrow> Entity list \<Rightarrow> bool \<Rightarrow> rat list" where
  "healthFactors tasks milestones issues risks behindSchedule =
     (let completedTasks = countStatus ''completed'' tasks;
          blockedTasks = countStatus ''blocked'' tasks;
          taskCompletionRate =
            (if length tasks > 0 then (of_nat completedTasks / of_nat (length tasks)) * 100 else 0);
          reachedMilestones = countStatus ''reached'' milestones;
          missedMilestones = countStatus ''missed'' milestones;
          milestoneCompletionRate =
            (if length milestones > 0
             then (of_nat reachedMilestones / of_nat (length milestones)) * 100 else 0);
          resolvedIssues = countStatus ''resolved'' issues;
          openIssues = int (length issues) - int resolvedIssues;
          mitigatedRisks = length (filter (\<lambda>r.
              obsField ''Status:'' (observations r) = Some ''mitigating'' \<or>
              obsField ''Status:'' (observations r) = Some ''avoided'') risks);
          activeRisks = length (filter (\<lambda>r.
              obsField ''Status:'' (observations r) = Some ''identified'' \<or>
              obsField ''Status:'' (observations r) = Some ''monitoring'') risks)
      in [if length tasks > 0 then min 100 taskCompletionRate else 50,
          if length tasks > 0
          then max 0 (100 - (of_nat blockedTasks / of_nat (length tasks)) * 200) else 50,
          if length milestones > 0 then min 100 milestoneCompletionRate else 50,
          if length milestones > 0
          then max 0 (100 - (of_nat missedMilestones / of_nat (length milestones)) * 200) else 50,
          if length issues > 0
          then min 100 ((of_nat resolvedIssues / of_nat (length issues)) * 100) else 50,
          if length issues > 0
          then max 0 (100 - (of_int openIssues / of_nat (length issues)) * 100) else 50,
          if length risks > 0
          then min 100 ((of_nat mitigatedRisks / of_nat (length risks)) * 100) else 50,
          if length risks > 0
          then max 0 (100 - (of_nat activeRisks / of_nat (length risks)) * 100) else 50,
          if behindSchedule then 30 else 70])"

definition healthStatusOf :: "int \<Rightarrow> string" where
  "healthStatusOf healthScore =
     (if healthScore \<ge> 80 then ''healthy''
      else if healthScore \<ge> 60 then ''attention_needed''
      else if healthScore \<ge> 40 then ''at_risk''
      else ''critical'')"

text \<open>The returned object, without \<open>metrics\<close>' rounded rates, \<open>topIssues\<close> and
  \<open>recommendations\<close>, which are computed from the same lists after the score and cannot
  raise.\<close>

record ProjectHealth =
  project :: Entity
  healthScore :: int
  healthStatus :: string
  tasksTotal :: nat
  milestonesTotal :: nat
  issuesTotal :: nat
  risksTotal :: nat
  timelineProgress :: int
  behindSchedule :: bool

definition getProjectHealth ::
    "(string \<Rightarrow> int option) \<Rightarrow> int \<Rightarrow> string \<Rightarrow> store \<Rightarrow> error + ProjectHealth" where
  "getProjectHealth parseDate now projectName fs =
     (let graph = loadGraph fs in
      case find (\<lambda>e. name e = projectName \<and> entityType e = ''project'') (entities graph) of
        None \<Rightarrow> Inl (ProjectNotFound projectName)
      | Some found \<Rightarrow>
          (let startDate = obsField ''StartDate:'' (observations found);
               endDate = obsField ''EndDate:'' (observations found);
               tasks = getProjectEntities graph projectName ''task'';
               milestones = getProjectEntities graph projectName ''milestone'';
               issues = getProjectEntities graph projectName ''issue'';
               risks = getProjectEntities graph projectName ''risk'';
               taskCompletionRate =
                 (if length tasks > 0
                  then (of_nat (countStatus ''completed'' tasks) / of_nat (length tasks)) * 100
                  else 0);
               timeline = timelineMetrics parseDate now startDate endDate taskCompletionRate;
               factors = healthFactors tasks milestones issues risks (snd timeline);
               score = js_round (sum_list factors / of_nat (length factors))
           in Inr \<lparr>project = found, healthScore = score, healthStatus = healthStatusOf score,
                   tasksTotal = length tasks, milestonesTotal = length milestones,
                   issuesTotal = length issues, risksTotal = length risks,
                   timelineProgress = fst timeline, behindSchedule = snd timeline\<rparr>))"

subsection \<open>Resource allocation\<close>

text \<open>
  \<open>parseInt(s)\<close> with no radix: leading white space is skipped, a sign is read, the prefix
  \<open>0x\<close> or \<open>0X\<close> selects base 16, and the longest run of digits is the value; no digit
  gives \<open>NaN\<close>. The sign is kept with a zero (\<open>parseInt('-0')\<close> is \<open>-0\<close>), because it decides
  the sign of a quotient by it. Digit strings beyond double precision are read exactly.
\<close>

datatype parsed = PNaN | PInt bool nat

definition decimal_digit :: "char \<Rightarrow> nat option" where
  "decimal_digit c = map_of (zip ''0123456789'' [0, 1, 2, 3, 4, 5, 6, 7, 8, 9]) c"

definition hex_digit :: "char \<Rightarrow> nat option" where
  "hex_digit c =
     map_of (zip ''0123456789abcdefABCDEF''
               [0, 1, 2, 3, 4, 5, 6, 7, 8, 9, 10, 11, 12, 13, 14, 15, 10, 11, 12, 13, 14, 15]) c"

fun leading_digits :: "(char \<Rightarrow> nat option) \<Rightarrow> string \<Rightarrow> nat list" where
  "leading_digits digit [] = []"
| "leading_digits digit (c # cs) =
     (case digit c of None \<Rightarrow> [] | Some d \<Rightarrow> d # leading_digits digit cs)"

definition parseInt :: "string \<Rightarrow> parsed" where
  "parseInt s =
     (let s1 = dropWhile isWhiteSpace s;
          negative = (case s1 of [] \<Rightarrow> False | c # cs \<Rightarrow> c = CHR ''-'');
          s2 = (case s1 of [] \<Rightarrow> []
                | c # cs \<Rightarrow> if c = CHR ''-'' \<or> c = CHR ''+'' then cs else s1);
          hex = (case s2 of
                   a # b # cs \<Rightarrow> a = CHR ''0'' \<and> (b = CHR ''x'' \<or> b = CHR ''X'')
                 | _ \<Rightarrow> False);
          digits = (if hex then leading_digits hex_digit (drop 2 s2)
                    else leading_digits decimal_digit s2);
          radix = (if hex then 16 else 10)
      in if digits = [] then PNaN
         else PInt negative (foldl (\<lambda>acc d. acc * radix + d) 0 digits))"

datatype jsnum = NaN | NegInf | PosInf | Num rat

text \<open>\<open>n / parseInt(...)\<close> for a count \<open>n\<close>, \<open>x * 100\<close>, \<open>Math.round\<close> and \<open>Math.min(100, x)\<close>.\<close>

definition js_div :: "nat \<Rightarrow> parsed \<Rightarrow> jsnum" where
  "js_div n p =
     (case p of
        PNaN \<Rightarrow> NaN
      | PInt negative m \<Rightarrow>
          if m = 0 then (if n = 0 then NaN else if negative then NegInf else PosInf)
          else Num ((if negative then - 1 else 1) * of_nat n / of_nat m))"

definition js_times100 :: "jsnum \<Rightarrow> jsnum" where
  "js_times100 x = (case x of Num q \<Rightarrow> Num (q * 100) | other \<Rightarrow> other)"

definition js_Math_round :: "jsnum \<Rightarrow> jsnum" where
  "js_Math_round x = (case x of Num q \<Rightarrow> Num (of_int (js_round q)) | other \<Rightarrow> other)"

definition js_Math_min100 :: "jsnum \<Rightarrow> jsnum" where
  "js_Math_min100 x =
     (case x of NaN \<Rightarrow> NaN | NegInf \<Rightarrow> NegInf | PosInf \<Rightarrow> Num 100 | Num q \<Rightarrow> Num (min 100 q))"

text \<open>\<open>x > c\<close> and \<open>x < c\<close> for a finite \<open>c\<close>: false for \<open>NaN\<close>.\<close>

definition js_gt :: "jsnum \<Rightarrow> rat \<Rightarrow> bool" where
  "js_gt x c = (case x of NaN \<Rightarrow> False | NegInf \<Rightarrow> False | PosInf \<Rightarrow> True | Num q \<Rightarrow> q > c)"

definition js_lt :: "jsnum \<Rightarrow> rat \<Rightarrow> bool" where
  "js_lt x c = (case x of NaN \<Rightarrow> False | NegInf \<Rightarrow> True | PosInf \<Rightarrow> False | Num q \<Rightarrow> q < c)"

text \<open>The sign of \<open>x - y\<close> as a sort comparator sees it: a \<open>NaN\<close> difference counts as 0.\<close>

fun js_minus_sign :: "jsnum \<Rightarrow> jsnum \<Rightarrow> int" where
  "js_minus_sign NaN y = 0"
| "js_minus_sign x NaN = 0"
| "js_minus_sign PosInf PosInf = 0"
| "js_minus_sign NegInf NegInf = 0"
| "js_minus_sign PosInf y = 1"
| "js_minus_sign x PosInf = - 1"
| "js_minus_sign NegInf y = - 1"
| "js_minus_sign x NegInf = 1"
| "js_minus_sign (Num p) (Num q) = (if p < q then - 1 else if p > q then 1 else 0)"

text \<open>
  \<open>Array.prototype.sort\<close> with a comparator, as a stable insertion sort. For a comparator
  that is a consistent order this is the order every engine produces; for an
  inconsistent one (two tasks without due date, a \<open>NaN\<close> usage) the order is
  implementation-defined, and no property below depends on it.
\<close>

fun insert_by :: "('a \<Rightarrow> 'a \<Rightarrow> int) \<Rightarrow> 'a \<Rightarrow> 'a list \<Rightarrow> 'a list" where
  "insert_by cmp x [] = [x]"
| "insert_by cmp x (y # ys) = (if cmp x y \<le> 0 then x # y # ys else y # insert_by cmp x ys)"

definition sort_by :: "('a \<Rightarrow> 'a \<Rightarrow> int) \<Rightarrow> 'a list \<Rightarrow> 'a list" where
  "sort_by cmp xs = foldr (insert_by cmp) xs []"

definition dueDateCompare :: "(string \<Rightarrow> int option) \<Rightarrow> Entity \<Rightarrow> Entity \<Rightarrow> int" where
  "dueDateCompare parseDate a b =
     (let aDate = orDefault (obsField ''DueDate:'' (observations a)) [];
          bDate = orDefault (obsField ''DueDate:'' (observations b)) []
      in if aDate = [] then 1
         else if bDate = [] then - 1
         else (case (parseDate aDate, parseDate bDate) of
                 (Some x, Some y) \<Rightarrow> x - y
               | _ \<Rightarrow> 0))"

text \<open>The two scans of \<open>graph.relations\<close> for a resource: relations of the given type that
  point to the resource, whose \<open>from\<close> is found as an entity of the given entity type
  (\<open>requires\<close> and \<open>task\<close> for the assigned tasks, \<open>uses\<close> and \<open>teamMember\<close> for the team).\<close>

fun relatedEntities ::
    "KnowledgeGraph \<Rightarrow> string \<Rightarrow> string \<Rightarrow> string \<Rightarrow> Relation list \<Rightarrow> Entity list" where
  "relatedEntities graph relType entType target [] = []"
| "relatedEntities graph relType entType target (relation # rest) =
     (if relationType relation = relType \<and> rto relation = target then
        (case find (\<lambda>e. name e = rfrom relation \<and> entityType e = entType) (entities graph) of
           Some found \<Rightarrow> found # relatedEntities graph relType entType target rest
         | None \<Rightarrow> relatedEntities graph relType entType target rest)
      else relatedEntities graph relType entType target rest)"

text \<open>
  \<open>tasksByStatus\<close> is a plain object used as a dictionary. For a status that is no own
  key yet but names a property of \<open>Object.prototype\<close>, \<open>!tasksByStatus[status]\<close> is false,
  no array is created, and \<open>tasksByStatus[status].push(task)\<close> raises a \<open>TypeError\<close>.
\<close>

definition objectPrototypeKeys :: "string list" where
  "objectPrototypeKeys =
     [''constructor'', ''__defineGetter__'', ''__defineSetter__'', ''hasOwnProperty'',
      ''__lookupGetter__'', ''__lookupSetter__'', ''isPrototypeOf'', ''propertyIsEnumerable'',
      ''toString'', ''valueOf'', ''__proto__'', ''toLocaleString'']"

definition statusOf :: "Entity \<Rightarrow> string" where
  "statusOf e = orDefault (obsField ''Status:'' (observations e)) ''not_started''"

fun groupByStatus ::
    "Entity list \<Rightarrow> (string \<times> Entity list) list \<Rightarrow> error + (string \<times> Entity list) list" where
  "groupByStatus [] acc = Inr acc"
| "groupByStatus (t # rest) acc =
     (case map_of acc (statusOf t) of
        Some existing \<Rightarrow> groupByStatus rest (AList.update (statusOf t) (existing @ [t]) acc)
      | None \<Rightarrow>
          if statusOf t \<in> set objectPrototypeKeys then Inl TypeError
          else groupByStatus rest (AList.update (statusOf t) [t] acc))"

definition usagePercentageOf :: "string option \<Rightarrow> nat \<Rightarrow> nat \<Rightarrow> jsnum" where
  "usagePercentageOf cap inProgress taskTotal =
     (if orDefault cap [] \<noteq> []
      then js_Math_min100 (js_Math_round (js_times100
             (js_div inProgress (parseInt (orDefault cap [])))))
      else if taskTotal > 0 then Num 50 else Num 0)"

text \<open>One entry of \<open>resourceAllocations\<close>; \<open>info\<close> and \<open>usage\<close> are flattened, \<open>info.type\<close> is
  the field \<open>resourceType\<close>.\<close>

record ResourceAllocation =
  resource :: Entity
  resourceType :: "string option"
  availability :: "string option"
  capacity :: "string option"
  cost :: "string option"
  totalTasks :: nat
  inProgressTasks :: nat
  usagePercentage :: jsnum
  assignedTasks :: "Entity list"
  tasksByStatus :: "(string \<times> Entity list) list"
  teamMembers :: "Entity list"

text \<open>The body of the loop over \<open>resources\<close>.\<close>

definition allocationOf ::
    "(string \<Rightarrow> int option) \<Rightarrow> KnowledgeGraph \<Rightarrow> Entity \<Rightarrow> error + ResourceAllocation" where
  "allocationOf parseDate graph r =
     (let cap = obsField ''Capacity:'' (observations r);
          assigned = sort_by (dueDateCompare parseDate)
                       (relatedEntities graph ''requires'' ''task'' (name r) (relations graph))
      in case groupByStatus assigned [] of
           Inl err \<Rightarrow> Inl err
         | Inr grouped \<Rightarrow>
             (let team = relatedEntities graph ''uses'' ''teamMember'' (name r) (relations graph);
                  taskTotal = length assigned;
                  inProgress = (case map_of grouped ''in_progress'' of
                                  None \<Rightarrow> 0 | Some existing \<Rightarrow> length existing)
              in Inr \<lparr>resource = r,
                      resourceType = obsField ''Type:'' (observations r),
                      availability = obsField ''Availability:'' (observations r),
                      capacity = cap,
                      cost = obsField ''Cost:'' (observations r),
                      totalTasks = taskTotal,
                      inProgressTasks = inProgress,
                      usagePercentage = usagePercentageOf cap inProgress taskTotal,
                      assignedTasks = assigned,
                      tasksByStatus = grouped,
                      teamMembers = team\<rparr>))"

fun allocateAll ::
    "(string \<Rightarrow> int option) \<Rightarrow> KnowledgeGraph \<Rightarrow> Entity list \<Rightarrow> error + ResourceAllocation list"
where
  "allocateAll parseDate graph [] = Inr []"
| "allocateAll parseDate graph (r # rest) =
     (case allocationOf parseDate graph r of
        Inl err \<Rightarrow> Inl err
      | Inr a \<Rightarrow>
          (case allocateAll parseDate graph rest of
             Inl err \<Rightarrow> Inl err
           | Inr others \<Rightarrow> Inr (a # others)))"

text \<open>The returned object; \<open>project\<close> is the field \<open>allocatedProject\<close> and the three fields
  of \<open>summary\<close> are fields of the record.\<close>

record ResourceAllocationResult =
  allocatedProject :: Entity
  resources :: "ResourceAllocation list"
  totalResources :: nat
  overallocatedCount :: nat
  underutilizedCount :: nat
  overallocatedResources :: "ResourceAllocation list"
  underutilizedResources :: "ResourceAllocation list"

definition getResourceAllocation ::
    "(string \<Rightarrow> int option) \<Rightarrow> string \<Rightarrow> string option \<Rightarrow> store \<Rightarrow>
     error + ResourceAllocationResult" where
  "getResourceAllocation parseDate projectName resourceName fs =
     (let graph = loadGraph fs in
      case find (\<lambda>e. name e = projectName \<and> entityType e = ''project'') (entities graph) of
        None \<Rightarrow> Inl (ProjectNotFound projectName)
      | Some found \<Rightarrow>
          (let wanted = orDefault resourceName [];
               selected =
                 (if wanted \<noteq> []
                  then filter (\<lambda>e. name e = wanted) (getProjectEntities graph projectName ''resource'')
                  else getProjectEntities graph projectName ''resource'')
           in if wanted \<noteq> [] \<and> selected = [] then Inl (ResourceNotFound wanted projectName)
              else
                (case allocateAll parseDate graph selected of
                   Inl err \<Rightarrow> Inl err
                 | Inr resourceAllocations \<Rightarrow>
                     (let sorted = sort_by (\<lambda>a b. js_minus_sign (usagePercentage b) (usagePercentage a))
                                     resourceAllocations;
                          over = filter (\<lambda>a. js_gt (usagePercentage a) 90) sorted;
                          under = filter (\<lambda>a. js_lt (usagePercentage a) 20 \<and> totalTasks a > 0) sorted
                      in Inr \<lparr>allocatedProject = found,
                              resources = sorted,
                              totalResources = length selected,
                              overallocatedCount = length over,
                              underutilizedCount = length under,
                              overallocatedResources = over,
                              underutilizedResources = under\<rparr>))))"

section \<open>Graphs built through createRelations\<close>

text \<open>
  The graphs whose relations were all added by \<open>createRelations\<close>: a graph without
  relations, the result of an accepted \<open>createRelations\<close> call on such a graph, and such
  a graph after any change of its entities or any removal of relations.
\<close>

inductive via_createRelations :: "KnowledgeGraph \<Rightarrow> bool" where
  no_relations: "relations g = [] \<Longrightarrow> via_createRelations g"
| created: "via_createRelations g \<Longrightarrow> createRelations batch (Some g) = (Inr g', fs') \<Longrightarrow>
            via_createRelations g'"
| entities_changed: "via_createRelations g \<Longrightarrow> via_createRelations (g\<lparr>entities := es\<rparr>)"
| relations_removed: "via_createRelations g \<Longrightarrow>
            via_createRelations (g\<lparr>relations := filter keep (relations g)\<rparr>)"

section \<open>Invariants and shapes of graphs used in the statements\<close>

text \<open>The invariant of the merge loop of \<open>searchNodes\<close>: the name set is the set of names
  of the collected entities, and both endpoints of every collected relation are in it.\<close>

definition search_inv :: "(Entity list \<times> string set) \<times> Relation list \<Rightarrow> bool" where
  "search_inv acc \<longleftrightarrow> snd (fst acc) = name ` set (fst (fst acc)) \<and>
     (\<forall>r\<in>set (snd acc). rfrom r \<in> snd (fst acc) \<and> rto r \<in> snd (fst acc))"


text \<open>Every node of the dependency map sits at the key that is its task's name.\<close>

definition keys_ok :: "dependencyMap \<Rightarrow> bool" where
  "keys_ok m \<longleftrightarrow> (\<forall>k n. map_of m k = Some n \<longrightarrow> name (task n) = k)"


text \<open>The \<open>depends_on\<close> relations of a graph as (from, to) pairs, in stored order.\<close>

definition dep_pairs :: "KnowledgeGraph \<Rightarrow> (string \<times> string) list" where
  "dep_pairs g = map (\<lambda>r. (rfrom r, rto r))
     (filter (\<lambda>r. relationType r = ''depends_on'') (relations g))"

text \<open>
  \<open>diamond g A B C D\<close>: four tasks with different names, each the one that
  \<open>graph.entities.find\<close> answers for its name, and the \<open>depends_on\<close> relations of the
  graph are exactly \<open>B \<rightarrow> A\<close>, \<open>C \<rightarrow> A\<close>, \<open>D \<rightarrow> B\<close> and \<open>D \<rightarrow> C\<close> (\<open>B\<close> depends on \<open>A\<close>, and so
  on), each once, stored in any order. Observations, other entities and relations of
  other types are arbitrary.
\<close>

definition diamond :: "KnowledgeGraph \<Rightarrow> Entity \<Rightarrow> Entity \<Rightarrow> Entity \<Rightarrow> Entity \<Rightarrow> bool" where
  "diamond g A B C D \<longleftrightarrow>
     distinct [name A, name B, name C, name D] \<and>
     find (\<lambda>e. name e = name A \<and> entityType e = ''task'') (entities g) = Some A \<and>
     find (\<lambda>e. name e = name B \<and> entityType e = ''task'') (entities g) = Some B \<and>
     find (\<lambda>e. name e = name C \<and> entityType e = ''task'') (entities g) = Some C \<and>
     find (\<lambda>e. name e = name D \<and> entityType e = ''task'') (entities g) = Some D \<and>
     distinct (dep_pairs g) \<and>
     set (dep_pairs g) =
       {(name B, name A), (name C, name A), (name D, name B), (name D, name C)}"

section \<open>Example graphs\<close>

text \<open>Small concrete entities, relations and graphs on which the properties below are
  evaluated.\<close>

definition taskA :: Entity where
  "taskA = \<lparr>name = ''A'', entityType = ''task'', observations = [], embedding = None\<rparr>"

definition taskB :: Entity where
  "taskB = \<lparr>name = ''B'', entityType = ''task'', observations = [], embedding = None\<rparr>"

definition graphA :: KnowledgeGraph where
  "graphA = \<lparr>entities = [taskA], relations = []\<rparr>"

definition relAA :: Relation where
  "relAA = \<lparr>rfrom = ''A'', rto = ''A'', relationType = ''related_to'', robservations = None\<rparr>"

definition relAZ :: Relation where
  "relAZ = \<lparr>rfrom = ''A'', rto = ''Z'', relationType = ''depends_on'', robservations = None\<rparr>"

definition relBA :: Relation where
  "relBA = \<lparr>rfrom = ''B'', rto = ''A'', relationType = ''depends_on'', robservations = None\<rparr>"


definition taskC :: Entity where
  "taskC = \<lparr>name = ''C'', entityType = ''task'', observations = [], embedding = None\<rparr>"

definition taskD :: Entity where
  "taskD = \<lparr>name = ''D'', entityType = ''task'', observations = [], embedding = None\<rparr>"

definition relCA :: Relation where
  "relCA = \<lparr>rfrom = ''C'', rto = ''A'', relationType = ''depends_on'', robservations = None\<rparr>"

definition relDB :: Relation where
  "relDB = \<lparr>rfrom = ''D'', rto = ''B'', relationType = ''depends_on'', robservations = None\<rparr>"

definition relDC :: Relation where
  "relDC = \<lparr>rfrom = ''D'', rto = ''C'', relationType = ''depends_on'', robservations = None\<rparr>"


definition diamondGraph :: KnowledgeGraph where
  "diamondGraph = \<lparr>entities = [taskA, taskB, taskC, taskD],
                    relations = [relBA, relCA, relDB, relDC]\<rparr>"

definition projectP1 :: Entity where
  "projectP1 = \<lparr>name = ''P1'', entityType = ''project'',
                 observations = [''Description: an empty project'', ''StartDate: soon''],
                 embedding = None\<rparr>"


definition resourceS :: Entity where
  "resourceS = \<lparr>name = ''S'', entityType = ''resource'',
                 observations = [''Capacity: 4 seats''], embedding = None\<rparr>"

definition taskT :: Entity where
  "taskT = \<lparr>name = ''T'', entityType = ''task'',
             observations = [''Status: in_progress''], embedding = None\<rparr>"


definition relSP :: Relation where
  "relSP = \<lparr>rfrom = ''S'', rto = ''P1'', relationType = ''part_of'', robservations = None\<rparr>"

definition relTS :: Relation where
  "relTS = \<lparr>rfrom = ''T'', rto = ''S'', relationType = ''requires'', robservations = None\<rparr>"

definition resourceZ :: Entity where
  "resourceZ = \<lparr>name = ''Z'', entityType = ''resource'',
                 observations = [''Capacity: 0''], embedding = None\<rparr>"

definition relZP :: Relation where
  "relZP = \<lparr>rfrom = ''Z'', rto = ''P1'', relationType = ''part_of'', robservations = None\<rparr>"

text \<open>A runtime in which no string is a valid date.\<close>

definition noDates :: "string \<Rightarrow> int option" where
  "noDates s = None"

section \<open>Properties of the graph store\<close>

lemma loadGraph_Some [simp]: "loadGraph (Some g) = g"
  by (simp add: loadGraph_def)

lemma loadGraph_None [simp]: "loadGraph None = \<lparr>entities = [], relations = []\<rparr>"
  by (simp add: loadGraph_def)




subsection \<open>createEntities\<close>

lemma createEntities_validate_fresh:
  "createEntities_validate graph batch = None \<Longrightarrow>
   \<forall>e\<in>set batch. \<forall>x\<in>set (entities graph). name x \<noteq> name e"
  by (induction batch) (auto simp: list_ex_iff split: if_splits)

text \<open>A batch whose own names are pairwise different keeps the names of the graph
  unique: the check against the loaded graph is enough for such batches.\<close>

lemma createEntities_distinct_batch:
  assumes "distinct (map name (entities (loadGraph fs)))"
    and "distinct (map name batch)"
    and "createEntities batch fs = (Inr g', fs')"
  shows "distinct (map name (entities g'))"
proof -
  from assms(3) have ok: "createEntities_validate (loadGraph fs) batch = None"
    and g': "entities g' = entities (loadGraph fs) @ batch"
    by (auto simp: createEntities_def Let_def split: option.splits)
  from createEntities_validate_fresh [OF ok]
  have "name ` set (entities (loadGraph fs)) \<inter> name ` set batch = {}"
    by auto
  with assms(1,2) g' show ?thesis
    by simp
qed

text \<open>
  Claim C1. Name uniqueness is stated as an invariant of \<open>createEntities\<close>, also for a
  batch that holds the same name twice. The validation loop compares each entity with
  the loaded graph only, never with the rest of the batch: on an empty memory file the
  batch of two entities named \<open>A\<close> is accepted, and the saved graph holds two entities
  named \<open>A\<close>.
\<close>

theorem createEntities_duplicate_in_batch:
  "createEntities [taskA, taskA] None =
     (Inr \<lparr>entities = [taskA, taskA], relations = []\<rparr>,
      Some \<lparr>entities = [taskA, taskA], relations = []\<rparr>)
   \<and> length (filter (\<lambda>e. name e = ''A'')
        (entities (loadGraph (snd (createEntities [taskA, taskA] None))))) = 2"
  by (simp add: createEntities_def saveGraph_def taskA_def Let_def
       isValidEntityType_def validEntityTypes_def)

subsection \<open>Status and priority\<close>



lemma setEntityStatus_relations:
  "v \<in> set VALID_STATUS_VALUES \<Longrightarrow>
   setEntityStatus x v fs = (Inr (), Some ((loadGraph fs)\<lparr>relations :=
      filter (\<lambda>r. \<not> (rfrom r = x \<and> relationType r = ''has_status''))
        (relations (loadGraph fs)) @
      [\<lparr>rfrom = x, rto = ''status:'' @ v, relationType = ''has_status'',
        robservations = None\<rparr>]\<rparr>))"
  by (simp add: setEntityStatus_def Let_def saveGraph_def)

lemma setEntityPriority_relations:
  "v \<in> set VALID_PRIORITY_VALUES \<Longrightarrow>
   setEntityPriority x v fs = (Inr (), Some ((loadGraph fs)\<lparr>relations :=
      filter (\<lambda>r. \<not> (rfrom r = x \<and> relationType r = ''has_priority''))
        (relations (loadGraph fs)) @
      [\<lparr>rfrom = x, rto = ''priority:'' @ v, relationType = ''has_priority'',
        robservations = None\<rparr>]\<rparr>))"
  by (simp add: setEntityPriority_def Let_def saveGraph_def)











subsection \<open>createRelations\<close>

lemma createRelations_validate_rejects:
  "\<exists>r\<in>set batch. \<not> list_ex (\<lambda>e. name e = rfrom r) (entities graph) \<or>
      \<not> list_ex (\<lambda>e. name e = rto r) (entities graph) \<or>
      relationType r \<notin> set VALID_RELATION_TYPES \<or>
      list_ex (\<lambda>q. rfrom q = rfrom r \<and> rto q = rto r \<and> relationType q = relationType r)
        (relations graph)
   \<Longrightarrow> createRelations_validate graph batch \<noteq> None"
  by (induction batch) auto

lemma createRelations_validate_accepts:
  "createRelations_validate graph batch = None \<Longrightarrow>
   \<forall>r\<in>set batch. list_ex (\<lambda>e. name e = rfrom r) (entities graph) \<and>
      list_ex (\<lambda>e. name e = rto r) (entities graph) \<and>
      relationType r \<in> set VALID_RELATION_TYPES \<and>
      \<not> list_ex (\<lambda>q. rfrom q = rfrom r \<and> rto q = rto r \<and> relationType q = relationType r)
        (relations graph)"
  by (induction batch) (auto split: if_splits)

lemma createRelations_success:
  assumes "createRelations batch fs = (Inr g', fs')"
  shows "createRelations_validate (loadGraph fs) batch = None"
    and "g' = (loadGraph fs)\<lparr>relations := relations (loadGraph fs) @ batch\<rparr>"
    and "fs' = Some g'"
  using assms
  by (auto simp: createRelations_def Let_def saveGraph_def split: option.splits)

text \<open>
  Claim C3. \<open>createRelations\<close> rejects whole batches: if some relation of the batch names
  a \<open>from\<close> or a \<open>to\<close> that is no entity of the loaded graph, has a type outside
  \<open>VALID_RELATION_TYPES\<close>, or repeats a (from, to, relationType) triple of the graph,
  the call ends in an error and the memory file is the one it started with, so no
  relation of the batch is added or saved.
\<close>

theorem createRelations_rejects_whole_batch:
  assumes "\<exists>r\<in>set batch.
      \<not> list_ex (\<lambda>e. name e = rfrom r) (entities (loadGraph fs)) \<or>
      \<not> list_ex (\<lambda>e. name e = rto r) (entities (loadGraph fs)) \<or>
      relationType r \<notin> set VALID_RELATION_TYPES \<or>
      list_ex (\<lambda>q. rfrom q = rfrom r \<and> rto q = rto r \<and> relationType q = relationType r)
        (relations (loadGraph fs))"
  shows "\<exists>err. createRelations batch fs = (Inl err, fs)"
proof -
  from assms have "createRelations_validate (loadGraph fs) batch \<noteq> None"
    by (rule createRelations_validate_rejects)
  then obtain err where "createRelations_validate (loadGraph fs) batch = Some err"
    by auto
  then show ?thesis
    by (simp add: createRelations_def)
qed

theorem createRelations_rejects_whole_batch_witness:
  "createRelations_validate graphA [relAA] = None \<and>
   createRelations [relAA, relAZ] (Some graphA) = (Inl (EntityNotFound ''Z''), Some graphA)"
proof -
  have bad: "\<exists>r\<in>set [relAA, relAZ].
      \<not> list_ex (\<lambda>e. name e = rfrom r) (entities (loadGraph (Some graphA))) \<or>
      \<not> list_ex (\<lambda>e. name e = rto r) (entities (loadGraph (Some graphA))) \<or>
      relationType r \<notin> set VALID_RELATION_TYPES \<or>
      list_ex (\<lambda>q. rfrom q = rfrom r \<and> rto q = rto r \<and> relationType q = relationType r)
        (relations (loadGraph (Some graphA)))"
    by (simp add: graphA_def relAZ_def taskA_def)
  have first_ok: "createRelations_validate graphA [relAA] = None"
    by (simp add: graphA_def relAA_def taskA_def VALID_RELATION_TYPES_def)
  have "createRelations_validate graphA [relAA, relAZ] = Some (EntityNotFound ''Z'')"
    by (simp add: graphA_def relAA_def relAZ_def taskA_def VALID_RELATION_TYPES_def)
  with createRelations_rejects_whole_batch [OF bad] first_ok show ?thesis
    by (auto simp: createRelations_def)
qed

text \<open>
  Claim C4, as stated: every operation that appends a relation does so only if both of
  its endpoints are entities of the graph at that moment. \<open>setEntityStatus\<close> checks the
  value only: on an empty memory file it appends a relation from \<open>ghost\<close> to
  \<open>status:active\<close>, and neither is an entity.
\<close>

theorem setEntityStatus_dangling_counterexample:
  "setEntityStatus ''ghost'' ''active'' None =
     (Inr (), Some \<lparr>entities = [],
        relations = [\<lparr>rfrom = ''ghost'', rto = ''status:active'',
          relationType = ''has_status'', robservations = None\<rparr>]\<rparr>)"
  by (simp add: setEntityStatus_def saveGraph_def VALID_STATUS_VALUES_def)

text \<open>
  Claim C4, amended: \<open>createRelations\<close> appends its batch only if, for every relation of
  the batch, both endpoints name entities of the loaded graph; \<open>setEntityStatus\<close> and
  \<open>setEntityPriority\<close> validate the value only and then append their relation to
  \<open>status:<value>\<close> or \<open>priority:<value>\<close>, whatever the entities of the graph are.
\<close>

theorem relation_append_endpoint_checks:
  "(createRelations batch fs = (Inr g', fs') \<longrightarrow>
      relations g' = relations (loadGraph fs) @ batch \<and> fs' = Some g' \<and>
      (\<forall>r\<in>set batch. list_ex (\<lambda>e. name e = rfrom r) (entities (loadGraph fs)) \<and>
                      list_ex (\<lambda>e. name e = rto r) (entities (loadGraph fs)))) \<and>
   (v \<in> set VALID_STATUS_VALUES \<longrightarrow>
      (\<exists>g. setEntityStatus x v fs = (Inr (), Some g) \<and>
           entities g = entities (loadGraph fs) \<and>
           last (relations g) = \<lparr>rfrom = x, rto = ''status:'' @ v,
             relationType = ''has_status'', robservations = None\<rparr>)) \<and>
   (p \<in> set VALID_PRIORITY_VALUES \<longrightarrow>
      (\<exists>g. setEntityPriority x p fs = (Inr (), Some g) \<and>
           entities g = entities (loadGraph fs) \<and>
           last (relations g) = \<lparr>rfrom = x, rto = ''priority:'' @ p,
             relationType = ''has_priority'', robservations = None\<rparr>))"
proof (intro conjI impI)
  assume ok: "createRelations batch fs = (Inr g', fs')"
  from createRelations_success(2) [OF ok]
  show "relations g' = relations (loadGraph fs) @ batch"
    by simp
  from createRelations_success(3) [OF ok] show "fs' = Some g'" .
  from createRelations_validate_accepts [OF createRelations_success(1) [OF ok]]
  show "\<forall>r\<in>set batch. list_ex (\<lambda>e. name e = rfrom r) (entities (loadGraph fs)) \<and>
                      list_ex (\<lambda>e. name e = rto r) (entities (loadGraph fs))"
    by blast
next
  assume "v \<in> set VALID_STATUS_VALUES"
  then show "\<exists>g. setEntityStatus x v fs = (Inr (), Some g) \<and>
           entities g = entities (loadGraph fs) \<and>
           last (relations g) = \<lparr>rfrom = x, rto = ''status:'' @ v,
             relationType = ''has_status'', robservations = None\<rparr>"
    by (simp add: setEntityStatus_relations)
next
  assume "p \<in> set VALID_PRIORITY_VALUES"
  then show "\<exists>g. setEntityPriority x p fs = (Inr (), Some g) \<and>
           entities g = entities (loadGraph fs) \<and>
           last (relations g) = \<lparr>rfrom = x, rto = ''priority:'' @ p,
             relationType = ''has_priority'', robservations = None\<rparr>"
    by (simp add: setEntityPriority_relations)
qed

theorem relation_append_endpoint_checks_witness:
  "createRelations [relAA] (Some graphA) =
     (Inr \<lparr>entities = [taskA], relations = [relAA]\<rparr>,
      Some \<lparr>entities = [taskA], relations = [relAA]\<rparr>) \<and>
   list_ex (\<lambda>e. name e = rfrom relAA) (entities graphA) \<and>
   list_ex (\<lambda>e. name e = rto relAA) (entities graphA) \<and>
   ''pending'' \<in> set VALID_STATUS_VALUES \<and> ''low'' \<in> set VALID_PRIORITY_VALUES \<and>
   fst (setEntityStatus ''ghost'' ''pending'' (Some graphA)) = Inr () \<and>
   fst (setEntityPriority ''ghost'' ''low'' (Some graphA)) = Inr ()"
proof -
  have run: "createRelations [relAA] (Some graphA) =
     (Inr \<lparr>entities = [taskA], relations = [relAA]\<rparr>,
      Some \<lparr>entities = [taskA], relations = [relAA]\<rparr>)"
    by (simp add: createRelations_def Let_def saveGraph_def graphA_def relAA_def taskA_def
          VALID_RELATION_TYPES_def)
  have v: "''pending'' \<in> set VALID_STATUS_VALUES"
    by (simp add: VALID_STATUS_VALUES_def)
  have p: "''low'' \<in> set VALID_PRIORITY_VALUES"
    by (simp add: VALID_PRIORITY_VALUES_def)
  from relation_append_endpoint_checks
    [of "[relAA]" "Some graphA" "\<lparr>entities = [taskA], relations = [relAA]\<rparr>"
        "Some \<lparr>entities = [taskA], relations = [relAA]\<rparr>" "''pending''" "''ghost''" "''low''"]
    run v p
  show ?thesis
    by auto
qed

section \<open>Properties of searchNodes\<close>

lemma find_by_name:
  "list_ex (\<lambda>e. name e = n) es \<Longrightarrow> \<exists>e. find (\<lambda>e. name e = n) es = Some e \<and> name e = n"
  by (induction es) auto

lemma add_endpoint_names:
  "snd found = name ` set (fst found) \<Longrightarrow>
   snd (searchNodes_add_endpoint graph n found) =
   name ` set (fst (searchNodes_add_endpoint graph n found))"
  by (cases found)
    (auto simp: searchNodes_add_endpoint_def split: option.splits
       dest: find_Some_iff [THEN iffD1])

lemma add_endpoint_mono:
  "snd found \<subseteq> snd (searchNodes_add_endpoint graph n found)"
  by (cases found) (auto simp: searchNodes_add_endpoint_def split: option.splits)

lemma add_endpoint_present:
  "list_ex (\<lambda>e. name e = n) (entities graph) \<Longrightarrow>
   n \<in> snd (searchNodes_add_endpoint graph n found)"
  by (cases found)
    (auto simp: searchNodes_add_endpoint_def split: option.splits dest: find_by_name)

lemma searchNodes_merge_inv:
  "search_inv acc \<Longrightarrow>
   \<forall>r\<in>set rs. list_ex (\<lambda>e. name e = rfrom r) (entities graph) \<and>
               list_ex (\<lambda>e. name e = rto r) (entities graph) \<Longrightarrow>
   search_inv (searchNodes_merge graph rs acc)"
proof (induction graph rs acc rule: searchNodes_merge.induct)
  case (1 graph acc)
  then show ?case by simp
next
  case (2 graph relation rest found allRelations)
  let ?f1 = "searchNodes_add_endpoint graph (rfrom relation) found"
  let ?f2 = "searchNodes_add_endpoint graph (rto relation) ?f1"
  from "2.prems"(1) have names: "snd found = name ` set (fst found)"
    and ends: "\<forall>r\<in>set allRelations. rfrom r \<in> snd found \<and> rto r \<in> snd found"
    by (auto simp add: search_inv_def)
  have n2: "snd ?f2 = name ` set (fst ?f2)"
    by (intro add_endpoint_names names)
  have sub: "snd found \<subseteq> snd ?f2"
    using add_endpoint_mono [of found graph "rfrom relation"]
      add_endpoint_mono [of ?f1 graph "rto relation"] by blast
  have "rfrom relation \<in> snd ?f1"
    using "2.prems"(2) by (intro add_endpoint_present) simp
  then have from_in: "rfrom relation \<in> snd ?f2"
    using add_endpoint_mono [of ?f1 graph "rto relation"] by blast
  have to_in: "rto relation \<in> snd ?f2"
    using "2.prems"(2) by (intro add_endpoint_present) simp
  have inv': "search_inv (?f2, allRelations @ [relation])"
    using n2 sub from_in to_in ends by (auto simp: search_inv_def)
  show ?case
    using 2 inv' by simp
qed

text \<open>
  Claim C5, as stated: for every graph and every query, each returned relation has both
  endpoints among the returned entities. A relation matched by its type is returned
  whether or not \<open>graph.entities.find\<close> finds its endpoints. After
  \<open>setEntityStatus('T1', 'active')\<close> on an empty memory file, the query \<open>has_status\<close>
  returns the relation from \<open>T1\<close> to \<open>status:active\<close> and no entity at all.
\<close>

theorem searchNodes_dangling_counterexample:
  "searchNodes ''has_status'' (snd (setEntityStatus ''T1'' ''active'' None)) =
     \<lparr>entities = [],
      relations = [\<lparr>rfrom = ''T1'', rto = ''status:active'',
        relationType = ''has_status'', robservations = None\<rparr>]\<rparr>"
  by (simp add: searchNodes_def setEntityStatus_def saveGraph_def VALID_STATUS_VALUES_def
        Let_def toLowerCase_def lower_char_def searchNodes_add_endpoint_def)

text \<open>
  Claim C5, amended: for every graph in which both endpoints of every relation name an
  entity of the graph, and every query, each relation returned by \<open>searchNodes\<close> has its
  \<open>from\<close> and its \<open>to\<close> among the names of the returned entities.
\<close>

theorem searchNodes_self_consistent:
  assumes "\<forall>r\<in>set (relations (loadGraph fs)).
      list_ex (\<lambda>e. name e = rfrom r) (entities (loadGraph fs)) \<and>
      list_ex (\<lambda>e. name e = rto r) (entities (loadGraph fs))"
  shows "\<forall>r\<in>set (relations (searchNodes query fs)).
      rfrom r \<in> name ` set (entities (searchNodes query fs)) \<and>
      rto r \<in> name ` set (entities (searchNodes query fs))"
proof -
  define graph where "graph = loadGraph fs"
  define lowerQuery where "lowerQuery = toLowerCase query"
  define matchingEntities where "matchingEntities = filter (\<lambda>entity.
              includes_str (toLowerCase (name entity)) lowerQuery \<or>
              includes_str (toLowerCase (entityType entity)) lowerQuery \<or>
              list_ex (\<lambda>o'. includes_str (toLowerCase o') lowerQuery) (observations entity))
            (entities graph)"
  define matchingRelations where "matchingRelations = filter (\<lambda>relation.
              rfrom relation \<in> set (map name matchingEntities) \<and>
              rto relation \<in> set (map name matchingEntities))
            (relations graph)"
  define additionalRelations where "additionalRelations = filter (\<lambda>relation.
              includes_str (toLowerCase (relationType relation)) lowerQuery \<or>
              (case robservations relation of
                 None \<Rightarrow> False
               | Some obs \<Rightarrow> list_ex (\<lambda>o'. includes_str (toLowerCase o') lowerQuery) obs))
            (relations graph)"
  define final where "final = searchNodes_merge graph additionalRelations
                ((matchingEntities, set (map name matchingEntities)), matchingRelations)"
  have res: "searchNodes query fs = \<lparr>entities = fst (fst final), relations = snd final\<rparr>"
    unfolding searchNodes_def Let_def final_def additionalRelations_def matchingRelations_def
      matchingEntities_def lowerQuery_def graph_def
    by (simp split: prod.splits)
  have start: "search_inv ((matchingEntities, set (map name matchingEntities)), matchingRelations)"
    by (simp add: search_inv_def matchingRelations_def)
  have ends: "\<forall>r\<in>set additionalRelations. list_ex (\<lambda>e. name e = rfrom r) (entities graph) \<and>
               list_ex (\<lambda>e. name e = rto r) (entities graph)"
    using assms by (simp add: additionalRelations_def graph_def)
  have "search_inv final"
    unfolding final_def by (rule searchNodes_merge_inv [OF start ends])
  then show ?thesis
    by (auto simp add: res search_inv_def)
qed

theorem searchNodes_self_consistent_witness:
  "list_ex (\<lambda>e. name e = ''B'') [taskA, taskB] \<and> list_ex (\<lambda>e. name e = ''A'') [taskA, taskB] \<and>
   searchNodes ''DEPENDS'' (Some \<lparr>entities = [taskA, taskB], relations = [relBA]\<rparr>) =
     \<lparr>entities = [taskB, taskA], relations = [relBA]\<rparr> \<and>
   rfrom relBA \<in> name ` set (entities
     (searchNodes ''DEPENDS'' (Some \<lparr>entities = [taskA, taskB], relations = [relBA]\<rparr>))) \<and>
   rto relBA \<in> name ` set (entities
     (searchNodes ''DEPENDS'' (Some \<lparr>entities = [taskA, taskB], relations = [relBA]\<rparr>)))"
proof -
  let ?fs = "Some \<lparr>entities = [taskA, taskB], relations = [relBA]\<rparr>"
  have hyp: "\<forall>r\<in>set (relations (loadGraph ?fs)).
      list_ex (\<lambda>e. name e = rfrom r) (entities (loadGraph ?fs)) \<and>
      list_ex (\<lambda>e. name e = rto r) (entities (loadGraph ?fs))"
    by (simp add: taskA_def taskB_def relBA_def)
  have run: "searchNodes ''DEPENDS'' ?fs = \<lparr>entities = [taskB, taskA], relations = [relBA]\<rparr>"
    by code_simp
  have "relBA \<in> set (relations (searchNodes ''DEPENDS'' ?fs))"
    by (simp add: run)
  with searchNodes_self_consistent [OF hyp, of "''DEPENDS''"]
  have "rfrom relBA \<in> name ` set (entities (searchNodes ''DEPENDS'' ?fs)) \<and>
        rto relBA \<in> name ` set (entities (searchNodes ''DEPENDS'' ?fs))"
    by blast
  moreover have "list_ex (\<lambda>e. name e = ''B'') [taskA, taskB]"
    "list_ex (\<lambda>e. name e = ''A'') [taskA, taskB]"
    by (simp_all add: taskA_def taskB_def)
  ultimately show ?thesis
    using run by blast
qed

section \<open>Properties of the dependency resolver\<close>

text \<open>The defining equation of \<open>addDependencies\<close> is used through the two lemmas below,
  one for each outcome of the depth test.\<close>

declare addDependencies.simps [simp del]


lemma addDependencies_go:
  "int cl \<le> depth \<Longrightarrow> addDependencies g depth t cl dir m =
     addDependencies_loop g depth t cl dir (relations g) (enter_node t cl dir m)"
  by (subst addDependencies.simps) simp





lemma map_of_node_update:
  "map_of (node_update k f m) = (case map_of m k of None \<Rightarrow> map_of m | Some n \<Rightarrow> (map_of m)(k \<mapsto> f n))"
  by (simp add: node_update_def update_conv' split: option.splits)

lemma dom_node_update [simp]: "dom (map_of (node_update k f m)) = dom (map_of m)"
  by (auto simp: map_of_node_update split: option.splits if_splits)

lemma dom_push [simp]:
  "dom (map_of (push_dependsOn k d m)) = dom (map_of m)"
  "dom (map_of (push_dependedOnBy k d m)) = dom (map_of m)"
  by (simp_all add: push_dependsOn_def push_dependedOnBy_def)

lemma node_lists_push_dependsOn [simp]:
  "node_dependsOn (push_dependsOn k d m) j =
     (if j = k \<and> k \<in> dom (map_of m) then node_dependsOn m k @ [d] else node_dependsOn m j)"
  "node_dependedOnBy (push_dependsOn k d m) j = node_dependedOnBy m j"
  by (auto simp: push_dependsOn_def node_dependsOn_def node_dependedOnBy_def map_of_node_update
        split: option.splits)

lemma node_lists_push_dependedOnBy [simp]:
  "node_dependedOnBy (push_dependedOnBy k d m) j =
     (if j = k \<and> k \<in> dom (map_of m) then node_dependedOnBy m k @ [d] else node_dependedOnBy m j)"
  "node_dependsOn (push_dependedOnBy k d m) j = node_dependsOn m j"
  by (auto simp: push_dependedOnBy_def node_dependsOn_def node_dependedOnBy_def map_of_node_update
        split: option.splits)


lemma node_lists_enter_node [simp]:
  "node_dependsOn (enter_node t cl dir m) j = node_dependsOn m j"
  "node_dependedOnBy (enter_node t cl dir m) j = node_dependedOnBy m j"
  by (auto simp: enter_node_def Let_def node_dependsOn_def node_dependedOnBy_def
        map_of_node_update update_conv' split: option.splits)

lemma keys_ok_node_update:
  "keys_ok m \<Longrightarrow> (\<And>n. task (f n) = task n) \<Longrightarrow> keys_ok (node_update k f m)"
  by (auto simp: keys_ok_def map_of_node_update split: option.splits if_splits)

lemma keys_ok_push [simp]:
  "keys_ok m \<Longrightarrow> keys_ok (push_dependsOn k d m)"
  "keys_ok m \<Longrightarrow> keys_ok (push_dependedOnBy k d m)"
  by (simp_all add: push_dependsOn_def push_dependedOnBy_def keys_ok_node_update)

lemma keys_ok_enter_node [simp]:
  "keys_ok m \<Longrightarrow> keys_ok (enter_node t cl dir m)"
  unfolding enter_node_def Let_def
  by (rule keys_ok_node_update) (auto simp: keys_ok_def update_conv')










subsection \<open>The diamond\<close>

text \<open>The loop of \<open>addDependencies\<close> only acts on the \<open>depends_on\<close> relations that leave
  the task (or, in the other direction, that reach it).\<close>

lemma two_of_distinct:
  assumes "distinct xs" and "set xs = {x, y}" and "x \<noteq> y"
  shows "xs = [x, y] \<or> xs = [y, x]"
proof -
  from assms(1) have "length xs = card (set xs)"
    by (simp add: distinct_card)
  with assms(2,3) have "length xs = 2"
    by simp
  then obtain u v where xs: "xs = [u, v]"
    by (auto simp: length_Suc_conv numeral_2_eq_2)
  with assms(2) have "{u, v} = {x, y}"
    by simp
  then have "(u = x \<and> v = y) \<or> (u = y \<and> v = x)"
    by (simp only: doubleton_eq_iff)
  with xs show ?thesis
    by blast
qed

lemma one_of_distinct:
  assumes "distinct xs" and "set xs = {x}"
  shows "xs = [x]"
proof -
  from assms(1) have "length xs = card (set xs)"
    by (simp add: distinct_card)
  with assms(2) have "length xs = 1"
    by simp
  then obtain u where "xs = [u]"
    by (auto simp: length_Suc_conv)
  with assms(2) show ?thesis
    by simp
qed

lemma loop_skip_from:
  "\<not> (relationType r = ''depends_on'' \<and> rfrom r = name t) \<Longrightarrow>
   addDependencies_loop g depth t cl DependsOn (r # rs) m =
   addDependencies_loop g depth t cl DependsOn rs m"
  by auto

lemma loop_skip_to:
  "\<not> (relationType r = ''depends_on'' \<and> rto r = name t) \<Longrightarrow>
   addDependencies_loop g depth t cl DependedOnBy (r # rs) m =
   addDependencies_loop g depth t cl DependedOnBy rs m"
  by auto

lemma loop_from:
  "addDependencies_loop g depth t cl DependsOn rs m =
   addDependencies_loop g depth t cl DependsOn
     (filter (\<lambda>r. relationType r = ''depends_on'' \<and> rfrom r = name t) rs) m"
proof (induction rs arbitrary: m)
  case Nil
  show ?case by simp
next
  case (Cons r rs)
  show ?case
  proof (cases "relationType r = ''depends_on'' \<and> rfrom r = name t")
    case True
    then show ?thesis
      using Cons.IH
      by (simp cong: if_cong option.case_cong sum.case_cong)
  next
    case False
    then have skip: "addDependencies_loop g depth t cl DependsOn (r # rs) m =
        addDependencies_loop g depth t cl DependsOn rs m"
      by (rule loop_skip_from)
    from False have same: "filter (\<lambda>r. relationType r = ''depends_on'' \<and> rfrom r = name t) (r # rs) =
        filter (\<lambda>r. relationType r = ''depends_on'' \<and> rfrom r = name t) rs"
      by simp
    show ?thesis
      unfolding skip same by (rule Cons.IH)
  qed
qed

lemma loop_to:
  "addDependencies_loop g depth t cl DependedOnBy rs m =
   addDependencies_loop g depth t cl DependedOnBy
     (filter (\<lambda>r. relationType r = ''depends_on'' \<and> rto r = name t) rs) m"
proof (induction rs arbitrary: m)
  case Nil
  show ?case by simp
next
  case (Cons r rs)
  show ?case
  proof (cases "relationType r = ''depends_on'' \<and> rto r = name t")
    case True
    then show ?thesis
      using Cons.IH
      by (simp cong: if_cong option.case_cong sum.case_cong)
  next
    case False
    then have skip: "addDependencies_loop g depth t cl DependedOnBy (r # rs) m =
        addDependencies_loop g depth t cl DependedOnBy rs m"
      by (rule loop_skip_to)
    from False have same: "filter (\<lambda>r. relationType r = ''depends_on'' \<and> rto r = name t) (r # rs) =
        filter (\<lambda>r. relationType r = ''depends_on'' \<and> rto r = name t) rs"
      by simp
    show ?thesis
      unfolding skip same by (rule Cons.IH)
  qed
qed

lemma pairs_from_list:
  "map (\<lambda>r. (rfrom r, rto r))
     (filter (\<lambda>r. relationType r = ''depends_on'' \<and> rfrom r = x) rs) =
   filter (\<lambda>p. fst p = x)
     (map (\<lambda>r. (rfrom r, rto r)) (filter (\<lambda>r. relationType r = ''depends_on'') rs))"
  by (induction rs) auto

lemma pairs_to_list:
  "map (\<lambda>r. (rfrom r, rto r))
     (filter (\<lambda>r. relationType r = ''depends_on'' \<and> rto r = x) rs) =
   filter (\<lambda>p. snd p = x)
     (map (\<lambda>r. (rfrom r, rto r)) (filter (\<lambda>r. relationType r = ''depends_on'') rs))"
  by (induction rs) auto

lemma filtered_none:
  assumes "map (\<lambda>r. (rfrom r, rto r)) (filter Q rs) = []"
  shows "filter Q rs = []"
  using assms by simp

lemma filtered_one:
  assumes "map (\<lambda>r. (rfrom r, rto r)) (filter Q rs) = [(x, y)]"
  shows "\<exists>r. filter Q rs = [r] \<and> Q r \<and> rfrom r = x \<and> rto r = y"
proof -
  from assms obtain r where r: "filter Q rs = [r]" "rfrom r = x" "rto r = y"
    by (auto simp: map_eq_Cons_conv)
  have "r \<in> set (filter Q rs)"
    by (simp only: r(1)) simp
  then have "Q r"
    by simp
  with r show ?thesis
    by blast
qed

lemma filtered_two:
  assumes "map (\<lambda>r. (rfrom r, rto r)) (filter Q rs) = [(x, y), (u, v)]"
  shows "\<exists>r s. filter Q rs = [r, s] \<and> Q r \<and> Q s \<and>
           rfrom r = x \<and> rto r = y \<and> rfrom s = u \<and> rto s = v"
proof -
  from assms obtain r s where r: "filter Q rs = [r, s]" "rfrom r = x" "rto r = y"
    "rfrom s = u" "rto s = v"
    by (auto simp: map_eq_Cons_conv)
  have "r \<in> set (filter Q rs)" "s \<in> set (filter Q rs)"
    by (simp_all only: r(1)) simp_all
  then have "Q r" "Q s"
    by simp_all
  with r show ?thesis
    by blast
qed

lemma diamondD:
  assumes "diamond g A B C D"
  shows "distinct [name A, name B, name C, name D]"
    and "find (\<lambda>e. name e = name A \<and> entityType e = ''task'') (entities g) = Some A"
    and "find (\<lambda>e. name e = name B \<and> entityType e = ''task'') (entities g) = Some B"
    and "find (\<lambda>e. name e = name C \<and> entityType e = ''task'') (entities g) = Some C"
    and "find (\<lambda>e. name e = name D \<and> entityType e = ''task'') (entities g) = Some D"
    and "distinct (dep_pairs g)"
    and "set (dep_pairs g) =
       {(name B, name A), (name C, name A), (name D, name B), (name D, name C)}"
  using assms unfolding diamond_def by (simp_all only:)

lemma diamond_names:
  assumes "diamond g A B C D"
  shows "name A \<noteq> name B" "name A \<noteq> name C" "name A \<noteq> name D"
    "name B \<noteq> name A" "name B \<noteq> name C" "name B \<noteq> name D"
    "name C \<noteq> name A" "name C \<noteq> name B" "name C \<noteq> name D"
    "name D \<noteq> name A" "name D \<noteq> name B" "name D \<noteq> name C"
  using diamondD(1) [OF assms] by auto

lemma diamond_pairs_from:
  assumes "diamond g A B C D"
  shows "filter (\<lambda>p. fst p = name A) (dep_pairs g) = []"
    and "filter (\<lambda>p. fst p = name B) (dep_pairs g) = [(name B, name A)]"
    and "filter (\<lambda>p. fst p = name C) (dep_pairs g) = [(name C, name A)]"
    and "filter (\<lambda>p. fst p = name D) (dep_pairs g) = [(name D, name B), (name D, name C)] \<or>
         filter (\<lambda>p. fst p = name D) (dep_pairs g) = [(name D, name C), (name D, name B)]"
proof -
  note ne = diamond_names [OF assms]
  note d = diamondD(6) [OF assms]
  note s = diamondD(7) [OF assms]
  show "filter (\<lambda>p. fst p = name A) (dep_pairs g) = []"
    using ne by (auto simp: filter_empty_conv s)
  have "set (filter (\<lambda>p. fst p = name B) (dep_pairs g)) = {(name B, name A)}"
    using ne by (auto simp: s)
  then show "filter (\<lambda>p. fst p = name B) (dep_pairs g) = [(name B, name A)]"
    using d by (intro one_of_distinct) simp_all
  have "set (filter (\<lambda>p. fst p = name C) (dep_pairs g)) = {(name C, name A)}"
    using ne by (auto simp: s)
  then show "filter (\<lambda>p. fst p = name C) (dep_pairs g) = [(name C, name A)]"
    using d by (intro one_of_distinct) simp_all
  have "set (filter (\<lambda>p. fst p = name D) (dep_pairs g)) = {(name D, name B), (name D, name C)}"
    using ne by (auto simp: s)
  then show "filter (\<lambda>p. fst p = name D) (dep_pairs g) = [(name D, name B), (name D, name C)] \<or>
         filter (\<lambda>p. fst p = name D) (dep_pairs g) = [(name D, name C), (name D, name B)]"
    using d ne by (intro two_of_distinct) simp_all
qed

lemma diamond_pairs_to:
  assumes "diamond g A B C D"
  shows "filter (\<lambda>p. snd p = name D) (dep_pairs g) = []"
    and "filter (\<lambda>p. snd p = name B) (dep_pairs g) = [(name D, name B)]"
    and "filter (\<lambda>p. snd p = name C) (dep_pairs g) = [(name D, name C)]"
    and "filter (\<lambda>p. snd p = name A) (dep_pairs g) = [(name B, name A), (name C, name A)] \<or>
         filter (\<lambda>p. snd p = name A) (dep_pairs g) = [(name C, name A), (name B, name A)]"
proof -
  note ne = diamond_names [OF assms]
  note d = diamondD(6) [OF assms]
  note s = diamondD(7) [OF assms]
  show "filter (\<lambda>p. snd p = name D) (dep_pairs g) = []"
    using ne by (auto simp: filter_empty_conv s)
  have "set (filter (\<lambda>p. snd p = name B) (dep_pairs g)) = {(name D, name B)}"
    using ne by (auto simp: s)
  then show "filter (\<lambda>p. snd p = name B) (dep_pairs g) = [(name D, name B)]"
    using d by (intro one_of_distinct) simp_all
  have "set (filter (\<lambda>p. snd p = name C) (dep_pairs g)) = {(name D, name C)}"
    using ne by (auto simp: s)
  then show "filter (\<lambda>p. snd p = name C) (dep_pairs g) = [(name D, name C)]"
    using d by (intro one_of_distinct) simp_all
  have "set (filter (\<lambda>p. snd p = name A) (dep_pairs g)) = {(name B, name A), (name C, name A)}"
    using ne by (auto simp: s)
  then show "filter (\<lambda>p. snd p = name A) (dep_pairs g) = [(name B, name A), (name C, name A)] \<or>
         filter (\<lambda>p. snd p = name A) (dep_pairs g) = [(name C, name A), (name B, name A)]"
    using d ne by (intro two_of_distinct) simp_all
qed

lemma diamond_eval:
  assumes ne: "distinct [name A, name B, name C, name D]"
    and fnd: "find (\<lambda>e. name e = name A \<and> entityType e = ''task'') (entities g) = Some A"
      "find (\<lambda>e. name e = name B \<and> entityType e = ''task'') (entities g) = Some B"
      "find (\<lambda>e. name e = name C \<and> entityType e = ''task'') (entities g) = Some C"
      "find (\<lambda>e. name e = name D \<and> entityType e = ''task'') (entities g) = Some D"
    and depth: "2 \<le> depth"
    and fA: "filter (\<lambda>r. relationType r = ''depends_on'' \<and> rfrom r = name A) (relations g) = []"
    and fB: "filter (\<lambda>r. relationType r = ''depends_on'' \<and> rfrom r = name B) (relations g) = [rb]"
      "relationType rb = ''depends_on''" "rfrom rb = name B" "rto rb = name A"
    and fC: "filter (\<lambda>r. relationType r = ''depends_on'' \<and> rfrom r = name C) (relations g) = [rc]"
      "relationType rc = ''depends_on''" "rfrom rc = name C" "rto rc = name A"
    and fD: "filter (\<lambda>r. relationType r = ''depends_on'' \<and> rfrom r = name D) (relations g) = [rd1, rd2]"
      "relationType rd1 = ''depends_on''" "rfrom rd1 = name D"
      "relationType rd2 = ''depends_on''" "rfrom rd2 = name D"
    and fD_order: "(rto rd1 = name B \<and> rto rd2 = name C) \<or> (rto rd1 = name C \<and> rto rd2 = name B)"
    and tA: "filter (\<lambda>r. relationType r = ''depends_on'' \<and> rto r = name A) (relations g) = [ra1, ra2]"
      "relationType ra1 = ''depends_on''" "rto ra1 = name A"
      "relationType ra2 = ''depends_on''" "rto ra2 = name A"
    and tA_order: "(rfrom ra1 = name B \<and> rfrom ra2 = name C) \<or> (rfrom ra1 = name C \<and> rfrom ra2 = name B)"
    and tB: "filter (\<lambda>r. relationType r = ''depends_on'' \<and> rto r = name B) (relations g) = [sb]"
      "relationType sb = ''depends_on''" "rfrom sb = name D" "rto sb = name B"
    and tC: "filter (\<lambda>r. relationType r = ''depends_on'' \<and> rto r = name C) (relations g) = [sc]"
      "relationType sc = ''depends_on''" "rfrom sc = name D" "rto sc = name C"
    and tD: "filter (\<lambda>r. relationType r = ''depends_on'' \<and> rto r = name D) (relations g) = []"
  shows "\<exists>res. getTaskDependencies (name A) depth (Some g) = Inr res \<and>
           criticalPath res = [name A, rfrom ra1, name D]"
    and "\<exists>res. getTaskDependencies (name B) depth (Some g) = Inr res \<and>
           criticalPath res = [name A, name B, name D]"
    and "\<exists>res. getTaskDependencies (name C) depth (Some g) = Inr res \<and>
           criticalPath res = [name A, name C, name D]"
    and "\<exists>res. getTaskDependencies (name D) depth (Some g) = Inr res \<and>
           criticalPath res = [name A, rto rd1, name D]"
proof -
  from ne have names: "name A \<noteq> name B" "name A \<noteq> name C" "name A \<noteq> name D"
    "name B \<noteq> name A" "name B \<noteq> name C" "name B \<noteq> name D"
    "name C \<noteq> name A" "name C \<noteq> name B" "name C \<noteq> name D"
    "name D \<noteq> name A" "name D \<noteq> name B" "name D \<noteq> name C"
    by auto
  have loopF: "addDependencies_loop g depth t cl DependsOn (relations g) m =
      addDependencies_loop g depth t cl DependsOn
        (filter (\<lambda>r. relationType r = ''depends_on'' \<and> rfrom r = name t) (relations g)) m"
    for t cl m
    by (rule loop_from)
  have loopT: "addDependencies_loop g depth t cl DependedOnBy (relations g) m =
      addDependencies_loop g depth t cl DependedOnBy
        (filter (\<lambda>r. relationType r = ''depends_on'' \<and> rto r = name t) (relations g)) m"
    for t cl m
    by (rule loop_to)
  note defs = getTaskDependencies_def addDependencies_go loopF loopT enter_node_def
        node_update_def node_dependsOn_def node_dependedOnBy_def push_dependsOn_def
        push_dependedOnBy_def Let_def serializeNode_def calculateCriticalPath_def
  note facts = depth names fnd fA fB fC fD tA tB tC tD
  show "\<exists>res. getTaskDependencies (name A) depth (Some g) = Inr res \<and>
           criticalPath res = [name A, rfrom ra1, name D]"
    using fD_order tA_order facts
    by (elim disjE conjE; simp add: defs del: set_filter)
  show "\<exists>res. getTaskDependencies (name B) depth (Some g) = Inr res \<and>
           criticalPath res = [name A, name B, name D]"
    using fD_order tA_order facts
    by (elim disjE conjE; simp add: defs del: set_filter)
  show "\<exists>res. getTaskDependencies (name C) depth (Some g) = Inr res \<and>
           criticalPath res = [name A, name C, name D]"
    using fD_order tA_order facts
    by (elim disjE conjE; simp add: defs del: set_filter)
  show "\<exists>res. getTaskDependencies (name D) depth (Some g) = Inr res \<and>
           criticalPath res = [name A, rto rd1, name D]"
    using fD_order tA_order facts
    by (elim disjE conjE; simp add: defs del: set_filter)
qed

lemma dep_pairs_from:
  "map (\<lambda>r. (rfrom r, rto r))
     (filter (\<lambda>r. relationType r = ''depends_on'' \<and> rfrom r = x) (relations g)) =
   filter (\<lambda>p. fst p = x) (dep_pairs g)"
  by (simp only: dep_pairs_def pairs_from_list)

lemma dep_pairs_to:
  "map (\<lambda>r. (rfrom r, rto r))
     (filter (\<lambda>r. relationType r = ''depends_on'' \<and> rto r = x) (relations g)) =
   filter (\<lambda>p. snd p = x) (dep_pairs g)"
  by (simp only: dep_pairs_def pairs_to_list)

lemma diamond_from_D:
  assumes "diamond g A B C D"
  shows "\<exists>rd1 rd2.
           filter (\<lambda>r. relationType r = ''depends_on'' \<and> rfrom r = name D) (relations g) =
             [rd1, rd2] \<and>
           (relationType rd1 = ''depends_on'' \<and> rfrom rd1 = name D) \<and>
           (relationType rd2 = ''depends_on'' \<and> rfrom rd2 = name D) \<and>
           ((rto rd1 = name B \<and> rto rd2 = name C) \<or> (rto rd1 = name C \<and> rto rd2 = name B))"
  using diamond_pairs_from(4) [OF assms]
proof
  assume "filter (\<lambda>p. fst p = name D) (dep_pairs g) = [(name D, name B), (name D, name C)]"
  then have "map (\<lambda>r. (rfrom r, rto r))
     (filter (\<lambda>r. relationType r = ''depends_on'' \<and> rfrom r = name D) (relations g)) =
     [(name D, name B), (name D, name C)]"
    by (simp only: dep_pairs_from)
  from filtered_two [OF this] show ?thesis
    by blast
next
  assume "filter (\<lambda>p. fst p = name D) (dep_pairs g) = [(name D, name C), (name D, name B)]"
  then have "map (\<lambda>r. (rfrom r, rto r))
     (filter (\<lambda>r. relationType r = ''depends_on'' \<and> rfrom r = name D) (relations g)) =
     [(name D, name C), (name D, name B)]"
    by (simp only: dep_pairs_from)
  from filtered_two [OF this] show ?thesis
    by blast
qed

lemma diamond_to_A:
  assumes "diamond g A B C D"
  shows "\<exists>ra1 ra2.
           filter (\<lambda>r. relationType r = ''depends_on'' \<and> rto r = name A) (relations g) =
             [ra1, ra2] \<and>
           (relationType ra1 = ''depends_on'' \<and> rto ra1 = name A) \<and>
           (relationType ra2 = ''depends_on'' \<and> rto ra2 = name A) \<and>
           ((rfrom ra1 = name B \<and> rfrom ra2 = name C) \<or>
            (rfrom ra1 = name C \<and> rfrom ra2 = name B))"
  using diamond_pairs_to(4) [OF assms]
proof
  assume "filter (\<lambda>p. snd p = name A) (dep_pairs g) = [(name B, name A), (name C, name A)]"
  then have "map (\<lambda>r. (rfrom r, rto r))
     (filter (\<lambda>r. relationType r = ''depends_on'' \<and> rto r = name A) (relations g)) =
     [(name B, name A), (name C, name A)]"
    by (simp only: dep_pairs_to)
  from filtered_two [OF this] show ?thesis
    by blast
next
  assume "filter (\<lambda>p. snd p = name A) (dep_pairs g) = [(name C, name A), (name B, name A)]"
  then have "map (\<lambda>r. (rfrom r, rto r))
     (filter (\<lambda>r. relationType r = ''depends_on'' \<and> rto r = name A) (relations g)) =
     [(name C, name A), (name B, name A)]"
    by (simp only: dep_pairs_to)
  from filtered_two [OF this] show ?thesis
    by blast
qed

lemma diamond_critical_paths:
  assumes "diamond g A B C D" and "2 \<le> depth"
  shows "\<exists>res. getTaskDependencies (name A) depth (Some g) = Inr res \<and>
           (criticalPath res = [name A, name B, name D] \<or>
            criticalPath res = [name A, name C, name D])"
    and "\<exists>res. getTaskDependencies (name B) depth (Some g) = Inr res \<and>
           criticalPath res = [name A, name B, name D]"
    and "\<exists>res. getTaskDependencies (name C) depth (Some g) = Inr res \<and>
           criticalPath res = [name A, name C, name D]"
    and "\<exists>res. getTaskDependencies (name D) depth (Some g) = Inr res \<and>
           (criticalPath res = [name A, name B, name D] \<or>
            criticalPath res = [name A, name C, name D])"
proof -
  note d = diamondD [OF assms(1)]
  have fA: "filter (\<lambda>r. relationType r = ''depends_on'' \<and> rfrom r = name A) (relations g) = []"
    by (rule filtered_none) (simp only: dep_pairs_from diamond_pairs_from(1) [OF assms(1)])
  have tD: "filter (\<lambda>r. relationType r = ''depends_on'' \<and> rto r = name D) (relations g) = []"
    by (rule filtered_none) (simp only: dep_pairs_to diamond_pairs_to(1) [OF assms(1)])
  from filtered_one [of "\<lambda>r. relationType r = ''depends_on'' \<and> rfrom r = name B" "relations g"
      "name B" "name A"]
  obtain rb where fB:
      "filter (\<lambda>r. relationType r = ''depends_on'' \<and> rfrom r = name B) (relations g) = [rb]"
      "relationType rb = ''depends_on''" "rfrom rb = name B" "rto rb = name A"
    by (simp only: dep_pairs_from diamond_pairs_from(2) [OF assms(1)]) blast
  from filtered_one [of "\<lambda>r. relationType r = ''depends_on'' \<and> rfrom r = name C" "relations g"
      "name C" "name A"]
  obtain rc where fC:
      "filter (\<lambda>r. relationType r = ''depends_on'' \<and> rfrom r = name C) (relations g) = [rc]"
      "relationType rc = ''depends_on''" "rfrom rc = name C" "rto rc = name A"
    by (simp only: dep_pairs_from diamond_pairs_from(3) [OF assms(1)]) blast
  from filtered_one [of "\<lambda>r. relationType r = ''depends_on'' \<and> rto r = name B" "relations g"
      "name D" "name B"]
  obtain sb where tB:
      "filter (\<lambda>r. relationType r = ''depends_on'' \<and> rto r = name B) (relations g) = [sb]"
      "relationType sb = ''depends_on''" "rfrom sb = name D" "rto sb = name B"
    by (simp only: dep_pairs_to diamond_pairs_to(2) [OF assms(1)]) blast
  from filtered_one [of "\<lambda>r. relationType r = ''depends_on'' \<and> rto r = name C" "relations g"
      "name D" "name C"]
  obtain sc where tC:
      "filter (\<lambda>r. relationType r = ''depends_on'' \<and> rto r = name C) (relations g) = [sc]"
      "relationType sc = ''depends_on''" "rfrom sc = name D" "rto sc = name C"
    by (simp only: dep_pairs_to diamond_pairs_to(3) [OF assms(1)]) blast
  from diamond_from_D [OF assms(1)] obtain rd1 rd2 where fD:
      "filter (\<lambda>r. relationType r = ''depends_on'' \<and> rfrom r = name D) (relations g) = [rd1, rd2]"
      "relationType rd1 = ''depends_on''" "rfrom rd1 = name D"
      "relationType rd2 = ''depends_on''" "rfrom rd2 = name D"
    and fD_order: "(rto rd1 = name B \<and> rto rd2 = name C) \<or> (rto rd1 = name C \<and> rto rd2 = name B)"
    by blast
  from diamond_to_A [OF assms(1)] obtain ra1 ra2 where tA:
      "filter (\<lambda>r. relationType r = ''depends_on'' \<and> rto r = name A) (relations g) = [ra1, ra2]"
      "relationType ra1 = ''depends_on''" "rto ra1 = name A"
      "relationType ra2 = ''depends_on''" "rto ra2 = name A"
    and tA_order: "(rfrom ra1 = name B \<and> rfrom ra2 = name C) \<or>
      (rfrom ra1 = name C \<and> rfrom ra2 = name B)"
    by blast
  note ev = diamond_eval [OF d(1-5) assms(2) fA fB fC fD fD_order tA tA_order tB tC tD]
  from ev(1) tA_order show "\<exists>res. getTaskDependencies (name A) depth (Some g) = Inr res \<and>
           (criticalPath res = [name A, name B, name D] \<or>
            criticalPath res = [name A, name C, name D])"
    by auto
  from ev(2) show "\<exists>res. getTaskDependencies (name B) depth (Some g) = Inr res \<and>
           criticalPath res = [name A, name B, name D]" .
  from ev(3) show "\<exists>res. getTaskDependencies (name C) depth (Some g) = Inr res \<and>
           criticalPath res = [name A, name C, name D]" .
  from ev(4) fD_order show "\<exists>res. getTaskDependencies (name D) depth (Some g) = Inr res \<and>
           (criticalPath res = [name A, name B, name D] \<or>
            criticalPath res = [name A, name C, name D])"
    by auto
qed

text \<open>
  Claim C7. On the diamond (\<open>B\<close> and \<open>C\<close> depend on \<open>A\<close>, \<open>D\<close> depends on \<open>B\<close> and on
  \<open>C\<close>), in whatever order the four relations are stored, for any of the four tasks as
  the task asked for and any depth bound of at least 2 (2 is the default),
  \<open>getTaskDependencies\<close> returns a result whose critical path has length 3, starts with
  \<open>A\<close>, ends with \<open>D\<close> and has \<open>B\<close> or \<open>C\<close> in the middle.
\<close>

theorem getTaskDependencies_diamond_critical_path:
  assumes "diamond g A B C D" and "2 \<le> depth"
    and "taskName \<in> {name A, name B, name C, name D}"
  shows "\<exists>res. getTaskDependencies taskName depth (Some g) = Inr res \<and>
           length (criticalPath res) = 3 \<and>
           (criticalPath res = [name A, name B, name D] \<or>
            criticalPath res = [name A, name C, name D])"
proof -
  note paths = diamond_critical_paths [OF assms(1,2)]
  from assms(3) consider "taskName = name A" | "taskName = name B"
    | "taskName = name C" | "taskName = name D"
    by blast
  then show ?thesis
  proof cases
    case 1
    with paths(1) show ?thesis by auto
  next
    case 2
    with paths(2) show ?thesis by auto
  next
    case 3
    with paths(3) show ?thesis by auto
  next
    case 4
    with paths(4) show ?thesis by auto
  qed
qed

theorem getTaskDependencies_diamond_critical_path_witness:
  "diamond diamondGraph taskA taskB taskC taskD \<and> (2::int) \<le> 2 \<and>
   ''D'' \<in> {name taskA, name taskB, name taskC, name taskD} \<and>
   (\<exists>res. getTaskDependencies ''D'' 2 (Some diamondGraph) = Inr res \<and>
      length (criticalPath res) = 3 \<and>
      (criticalPath res = [name taskA, name taskB, name taskD] \<or>
       criticalPath res = [name taskA, name taskC, name taskD])) \<and>
   map_sum id criticalPath (getTaskDependencies ''D'' 2 (Some diamondGraph)) =
     Inr [''A'', ''B'', ''D'']"
proof -
  have shape: "diamond diamondGraph taskA taskB taskC taskD"
    by (simp add: diamond_def dep_pairs_def diamondGraph_def taskA_def taskB_def taskC_def
          taskD_def relBA_def relCA_def relDB_def relDC_def)
  have bound: "(2::int) \<le> 2"
    by simp
  have asked: "''D'' \<in> {name taskA, name taskB, name taskC, name taskD}"
    by (simp add: taskD_def)
  have run: "map_sum id criticalPath (getTaskDependencies ''D'' 2 (Some diamondGraph)) =
     Inr [''A'', ''B'', ''D'']"
    by code_simp
  from getTaskDependencies_diamond_critical_path [OF shape bound asked] shape bound asked run
  show ?thesis
    by blast
qed

section \<open>Properties of getProjectHealth\<close>

lemma timeline_unparseable:
  assumes "(case startDate of None \<Rightarrow> True | Some s \<Rightarrow> parseDate s = None) \<or>
           (case endDate of None \<Rightarrow> True | Some e \<Rightarrow> parseDate e = None)"
  shows "timelineMetrics parseDate now startDate endDate rate = (0, False)"
  using assms
  by (auto simp: timelineMetrics_def orDefault_def split: option.splits)

lemma neutral_score: "js_round (sum_list [50, 50, 50, 50, 50, 50, 50, 50, 70] / of_nat 9) = 52"
  by (simp add: js_round_def floor_eq_iff)

text \<open>
  Claim C8. Let the project exist and have no task, no milestone, no issue and no risk
  linked \<open>part_of\<close> to it, and let its \<open>StartDate\<close> or its \<open>EndDate\<close> be absent or not
  parseable as a date (in particular when neither is parseable). Then, whatever the
  clock says, the first eight health factors are each 50 and the ninth is 70,
  \<open>getProjectHealth\<close> returns, the score is \<open>round(470 / 9) = 52\<close> and the status is
  \<open>at_risk\<close>.
\<close>

theorem getProjectHealth_empty_project:
  assumes "find (\<lambda>e. name e = projectName \<and> entityType e = ''project'')
             (entities (loadGraph fs)) = Some P"
    and "getProjectEntities (loadGraph fs) projectName ''task'' = []"
    and "getProjectEntities (loadGraph fs) projectName ''milestone'' = []"
    and "getProjectEntities (loadGraph fs) projectName ''issue'' = []"
    and "getProjectEntities (loadGraph fs) projectName ''risk'' = []"
    and "(case obsField ''StartDate:'' (observations P) of
            None \<Rightarrow> True | Some s \<Rightarrow> parseDate s = None) \<or>
         (case obsField ''EndDate:'' (observations P) of
            None \<Rightarrow> True | Some e \<Rightarrow> parseDate e = None)"
  shows "healthFactors (getProjectEntities (loadGraph fs) projectName ''task'')
           (getProjectEntities (loadGraph fs) projectName ''milestone'')
           (getProjectEntities (loadGraph fs) projectName ''issue'')
           (getProjectEntities (loadGraph fs) projectName ''risk'')
           (snd (timelineMetrics parseDate now (obsField ''StartDate:'' (observations P))
                   (obsField ''EndDate:'' (observations P)) 0)) =
           [50, 50, 50, 50, 50, 50, 50, 50, 70] \<and>
         (\<exists>res. getProjectHealth parseDate now projectName fs = Inr res \<and>
            healthScore res = 52 \<and> healthStatus res = ''at_risk'' \<and>
            behindSchedule res = False)"
proof -
  have factors: "healthFactors [] [] [] [] False = [50, 50, 50, 50, 50, 50, 50, 50, 70]"
    by (simp add: healthFactors_def)
  show ?thesis
    using factors neutral_score
    by (simp add: getProjectHealth_def assms(1-5) timeline_unparseable [OF assms(6)] Let_def
          healthStatusOf_def)
qed

theorem getProjectHealth_empty_project_witness:
  "find (\<lambda>e. name e = ''P1'' \<and> entityType e = ''project'')
     (entities (loadGraph (Some \<lparr>entities = [projectP1, taskA], relations = []\<rparr>))) =
     Some projectP1 \<and>
   getProjectEntities (loadGraph (Some \<lparr>entities = [projectP1, taskA], relations = []\<rparr>))
     ''P1'' ''task'' = [] \<and>
   obsField ''StartDate:'' (observations projectP1) = Some ''soon'' \<and>
   obsField ''EndDate:'' (observations projectP1) = None \<and>
   (\<exists>res. getProjectHealth (\<lambda>s. None) 1700000000000 ''P1''
             (Some \<lparr>entities = [projectP1, taskA], relations = []\<rparr>) = Inr res \<and>
      healthScore res = 52 \<and> healthStatus res = ''at_risk'' \<and> behindSchedule res = False)"
proof -
  let ?fs = "Some \<lparr>entities = [projectP1, taskA], relations = []\<rparr>"
  have found: "find (\<lambda>e. name e = ''P1'' \<and> entityType e = ''project'')
      (entities (loadGraph ?fs)) = Some projectP1"
    by (simp add: projectP1_def)
  have none: "getProjectEntities (loadGraph ?fs) ''P1'' ''task'' = []"
    "getProjectEntities (loadGraph ?fs) ''P1'' ''milestone'' = []"
    "getProjectEntities (loadGraph ?fs) ''P1'' ''issue'' = []"
    "getProjectEntities (loadGraph ?fs) ''P1'' ''risk'' = []"
    by (simp_all add: getProjectEntities_def)
  have start: "obsField ''StartDate:'' (observations projectP1) = Some ''soon''"
    by code_simp
  have finish: "obsField ''EndDate:'' (observations projectP1) = None"
    by code_simp
  have dates: "(case obsField ''StartDate:'' (observations projectP1) of
            None \<Rightarrow> True | Some s \<Rightarrow> (\<lambda>s. None :: int option) s = None) \<or>
         (case obsField ''EndDate:'' (observations projectP1) of
            None \<Rightarrow> True | Some e \<Rightarrow> (\<lambda>s. None :: int option) e = None)"
    by (simp add: finish)
  from getProjectHealth_empty_project [OF found none dates, of 1700000000000]
    found none(1) start finish
  show ?thesis
    by blast
qed

section \<open>Properties of getResourceAllocation\<close>

lemma set_insert_by [simp]: "set (insert_by cmp x ys) = insert x (set ys)"
  by (induction ys) auto

lemma set_sort_by [simp]: "set (sort_by cmp xs) = set xs"
  by (induction xs) (simp_all add: sort_by_def)

lemma sort_by_Nil [simp]: "sort_by cmp [] = []"
  by (simp add: sort_by_def)

lemma filter_insert_by:
  "length (filter P (insert_by cmp x ys)) = length (filter P (x # ys))"
  by (induction ys) auto

lemma length_filter_sort_by:
  "length (filter P (sort_by cmp xs)) = length (filter P xs)"
  by (induction xs) (simp_all add: sort_by_def filter_insert_by)

lemma groupByStatus_count:
  "groupByStatus ts acc = Inr grouped \<Longrightarrow>
   (case map_of grouped s of None \<Rightarrow> 0 | Some l \<Rightarrow> length l) =
   (case map_of acc s of None \<Rightarrow> 0 | Some l \<Rightarrow> length l) +
   length (filter (\<lambda>t. statusOf t = s) ts)"
proof (induction ts arbitrary: acc)
  case Nil
  then show ?case by simp
next
  case (Cons t ts)
  show ?case
  proof (cases "map_of acc (statusOf t)")
    case None
    with Cons.prems have ok: "groupByStatus ts (AList.update (statusOf t) [t] acc) = Inr grouped"
      by (simp split: if_splits)
    from Cons.IH [OF ok] None show ?thesis
      by (auto simp: update_conv')
  next
    case (Some l)
    with Cons.prems have ok: "groupByStatus ts (AList.update (statusOf t) (l @ [t]) acc) = Inr grouped"
      by simp
    from Cons.IH [OF ok] Some show ?thesis
      by (auto simp: update_conv')
  qed
qed

lemma allocationOf_fields:
  assumes "allocationOf parseDate graph r = Inr a"
  shows "resource a = r"
    and "capacity a = obsField ''Capacity:'' (observations r)"
    and "totalTasks a = length (assignedTasks a)"
    and "inProgressTasks a = length (filter (\<lambda>t. statusOf t = ''in_progress'') (assignedTasks a))"
    and "usagePercentage a = usagePercentageOf (capacity a) (inProgressTasks a) (totalTasks a)"
    and "assignedTasks a = sort_by (dueDateCompare parseDate)
           (relatedEntities graph ''requires'' ''task'' (name r) (relations graph))"
    and "teamMembers a = relatedEntities graph ''uses'' ''teamMember'' (name r) (relations graph)"
proof -
  let ?assigned = "sort_by (dueDateCompare parseDate)
           (relatedEntities graph ''requires'' ''task'' (name r) (relations graph))"
  from assms obtain grouped where g: "groupByStatus ?assigned [] = Inr grouped"
    by (auto simp: allocationOf_def Let_def split: sum.splits)
  from groupByStatus_count [OF g, of "''in_progress''"]
  have cnt: "(case map_of grouped ''in_progress'' of None \<Rightarrow> 0 | Some l \<Rightarrow> length l) =
      length (filter (\<lambda>t. statusOf t = ''in_progress'') ?assigned)"
    by simp
  from assms g have a: "a = \<lparr>resource = r,
                      resourceType = obsField ''Type:'' (observations r),
                      availability = obsField ''Availability:'' (observations r),
                      capacity = obsField ''Capacity:'' (observations r),
                      cost = obsField ''Cost:'' (observations r),
                      totalTasks = length ?assigned,
                      inProgressTasks = length (filter (\<lambda>t. statusOf t = ''in_progress'') ?assigned),
                      usagePercentage = usagePercentageOf (obsField ''Capacity:'' (observations r))
                         (length (filter (\<lambda>t. statusOf t = ''in_progress'') ?assigned))
                         (length ?assigned),
                      assignedTasks = ?assigned,
                      tasksByStatus = grouped,
                      teamMembers = relatedEntities graph ''uses'' ''teamMember'' (name r) (relations graph)\<rparr>"
    by (simp add: allocationOf_def Let_def cnt)
  show "resource a = r" "capacity a = obsField ''Capacity:'' (observations r)"
    "totalTasks a = length (assignedTasks a)"
    "inProgressTasks a = length (filter (\<lambda>t. statusOf t = ''in_progress'') (assignedTasks a))"
    "usagePercentage a = usagePercentageOf (capacity a) (inProgressTasks a) (totalTasks a)"
    "assignedTasks a = ?assigned"
    "teamMembers a = relatedEntities graph ''uses'' ''teamMember'' (name r) (relations graph)"
    by (simp_all add: a)
qed

lemma allocateAll_member:
  "allocateAll parseDate graph rs = Inr allocs \<Longrightarrow> a \<in> set allocs \<Longrightarrow>
   \<exists>r\<in>set rs. allocationOf parseDate graph r = Inr a"
  by (induction rs arbitrary: allocs) (auto split: sum.splits)

lemma allocateAll_resources:
  "allocateAll parseDate graph rs = Inr allocs \<Longrightarrow> map resource allocs = rs"
  by (induction rs arbitrary: allocs) (auto split: sum.splits dest: allocationOf_fields(1))

lemma getResourceAllocation_success:
  assumes "getResourceAllocation parseDate projectName resourceName fs = Inr res"
  shows "\<exists>allocs. allocateAll parseDate (loadGraph fs)
           (if orDefault resourceName [] \<noteq> []
            then filter (\<lambda>e. name e = orDefault resourceName [])
                   (getProjectEntities (loadGraph fs) projectName ''resource'')
            else getProjectEntities (loadGraph fs) projectName ''resource'') = Inr allocs \<and>
         resources res =
           sort_by (\<lambda>a b. js_minus_sign (usagePercentage b) (usagePercentage a)) allocs"
  using assms
  by (auto simp: getResourceAllocation_def Let_def split: option.splits if_splits sum.splits)

lemma getResourceAllocation_member:
  assumes "getResourceAllocation parseDate projectName resourceName fs = Inr res"
    and "a \<in> set (resources res)"
  shows "\<exists>r\<in>set (getProjectEntities (loadGraph fs) projectName ''resource'').
           allocationOf parseDate (loadGraph fs) r = Inr a"
proof -
  let ?selected = "if orDefault resourceName [] \<noteq> []
            then filter (\<lambda>e. name e = orDefault resourceName [])
                   (getProjectEntities (loadGraph fs) projectName ''resource'')
            else getProjectEntities (loadGraph fs) projectName ''resource''"
  from getResourceAllocation_success [OF assms(1)] obtain allocs where
    al: "allocateAll parseDate (loadGraph fs) ?selected = Inr allocs"
    and rs: "resources res =
           sort_by (\<lambda>a b. js_minus_sign (usagePercentage b) (usagePercentage a)) allocs"
    by blast
  from assms(2) rs have "a \<in> set allocs"
    by simp
  from allocateAll_member [OF al this] obtain r where
    r: "r \<in> set ?selected" "allocationOf parseDate (loadGraph fs) r = Inr a"
    by blast
  from r(1) have "r \<in> set (getProjectEntities (loadGraph fs) projectName ''resource'')"
    by (simp split: if_splits)
  with r(2) show ?thesis
    by blast
qed









subsection \<open>Relations of type requires and uses\<close>

lemma via_createRelations_types:
  "via_createRelations g \<Longrightarrow> \<forall>r\<in>set (relations g). relationType r \<in> set VALID_RELATION_TYPES"
proof (induction rule: via_createRelations.induct)
  case (no_relations g)
  then show ?case by simp
next
  case (created g batch g' fs')
  from createRelations_success(1,2) [OF created.hyps(2)]
  have ok: "createRelations_validate g batch = None"
    and g': "relations g' = relations g @ batch"
    by simp_all
  from createRelations_validate_accepts [OF ok] created.IH g' show ?case
    by auto
next
  case (entities_changed g es)
  then show ?case by simp
next
  case (relations_removed g keep)
  then show ?case by simp
qed

lemma relatedEntities_none:
  "\<forall>r\<in>set rs. relationType r \<noteq> relType \<Longrightarrow> relatedEntities graph relType entType target rs = []"
  by (induction rs) auto

lemma requires_uses_invalid:
  "''requires'' \<notin> set VALID_RELATION_TYPES" "''uses'' \<notin> set VALID_RELATION_TYPES"
  by (simp_all add: VALID_RELATION_TYPES_def)

lemma usagePercentageOf_idle:
  assumes "case cap of None \<Rightarrow> True
           | Some c \<Rightarrow> c = [] \<or> (\<exists>neg n. parseInt c = PInt neg n \<and> n \<noteq> 0)"
  shows "usagePercentageOf cap 0 0 = Num 0"
  using assms
  by (auto simp: usagePercentageOf_def orDefault_def js_div_def js_times100_def
        js_Math_round_def js_Math_min100_def js_round_def floor_eq_iff split: option.splits)


text \<open>
  Claim C10, as stated: in a graph whose relations were all added through
  \<open>createRelations\<close>, every reported resource has a usage percentage of 0. Create the
  project \<open>P1\<close> and the resource \<open>Z\<close> with \<open>Capacity: 0\<close>, link \<open>Z\<close> \<open>part_of\<close> \<open>P1\<close> with
  \<open>createRelations\<close>: the quotient is \<open>0 / 0\<close> and the reported usage percentage is \<open>NaN\<close>.
\<close>

theorem getResourceAllocation_zero_capacity_counterexample:
  "getResourceAllocation noDates ''P1'' None
     (snd (createRelations [relZP] (snd (createEntities [projectP1, resourceZ] None)))) =
   Inr \<lparr>allocatedProject = projectP1,
        resources = [\<lparr>resource = resourceZ, resourceType = None, availability = None,
                      capacity = Some ''0'', cost = None, totalTasks = 0,
                      inProgressTasks = 0, usagePercentage = NaN, assignedTasks = [],
                      tasksByStatus = [], teamMembers = []\<rparr>],
        totalResources = 1, overallocatedCount = 0, underutilizedCount = 0,
        overallocatedResources = [], underutilizedResources = []\<rparr>"
  by code_simp

text \<open>
  Claim C10, amended: \<open>requires\<close> and \<open>uses\<close> are not in \<open>VALID_RELATION_TYPES\<close>, so
  \<open>createRelations\<close> rejects every batch that holds a relation of one of these types; and
  in any graph whose relations were all added through \<open>createRelations\<close>, every resource
  reported by \<open>getResourceAllocation\<close> has an empty assigned-task list, an empty
  team-member list, no task and no in-progress task, and a usage percentage of 0
  whenever its \<open>Capacity\<close> value is absent, empty, or a string for which \<open>parseInt\<close>
  gives a non-zero integer.
\<close>

theorem requires_uses_never_created:
  "''requires'' \<notin> set VALID_RELATION_TYPES \<and> ''uses'' \<notin> set VALID_RELATION_TYPES \<and>
   ((\<exists>r\<in>set batch. relationType r = ''requires'' \<or> relationType r = ''uses'') \<longrightarrow>
      (\<exists>err. createRelations batch fs = (Inl err, fs))) \<and>
   (via_createRelations g \<and>
    getResourceAllocation parseDate projectName resourceName (Some g) = Inr res \<and>
    a \<in> set (resources res) \<longrightarrow>
      assignedTasks a = [] \<and> teamMembers a = [] \<and> totalTasks a = 0 \<and>
      inProgressTasks a = 0 \<and>
      ((case capacity a of
          None \<Rightarrow> True
        | Some c \<Rightarrow> c = [] \<or> (\<exists>neg n. parseInt c = PInt neg n \<and> n \<noteq> 0)) \<longrightarrow>
       usagePercentage a = Num 0))"
proof (intro conjI impI)
  show "''requires'' \<notin> set VALID_RELATION_TYPES" "''uses'' \<notin> set VALID_RELATION_TYPES"
    by (rule requires_uses_invalid)+
next
  assume "\<exists>r\<in>set batch. relationType r = ''requires'' \<or> relationType r = ''uses''"
  then obtain r where r: "r \<in> set batch"
    and "relationType r = ''requires'' \<or> relationType r = ''uses''"
    by blast
  then have "relationType r \<notin> set VALID_RELATION_TYPES"
    using requires_uses_invalid by auto
  with r have "\<exists>r\<in>set batch.
      \<not> list_ex (\<lambda>e. name e = rfrom r) (entities (loadGraph fs)) \<or>
      \<not> list_ex (\<lambda>e. name e = rto r) (entities (loadGraph fs)) \<or>
      relationType r \<notin> set VALID_RELATION_TYPES \<or>
      list_ex (\<lambda>q. rfrom q = rfrom r \<and> rto q = rto r \<and> relationType q = relationType r)
        (relations (loadGraph fs))"
    by (intro bexI [of _ r]) simp_all
  then have "createRelations_validate (loadGraph fs) batch \<noteq> None"
    by (rule createRelations_validate_rejects)
  then obtain err where "createRelations_validate (loadGraph fs) batch = Some err"
    by auto
  then show "\<exists>err. createRelations batch fs = (Inl err, fs)"
    by (simp add: createRelations_def)
next
  assume h: "via_createRelations g \<and>
    getResourceAllocation parseDate projectName resourceName (Some g) = Inr res \<and>
    a \<in> set (resources res)"
  then obtain r where al: "allocationOf parseDate g r = Inr a"
    using getResourceAllocation_member [of parseDate projectName resourceName "Some g" res a]
    by auto
  note f = allocationOf_fields [OF al]
  from h have "via_createRelations g"
    by simp
  then have ty: "\<forall>r\<in>set (relations g). relationType r \<in> set VALID_RELATION_TYPES"
    by (rule via_createRelations_types)
  have no: "\<forall>r\<in>set (relations g). relationType r \<noteq> ''requires''"
    "\<forall>r\<in>set (relations g). relationType r \<noteq> ''uses''"
    using ty requires_uses_invalid by auto
  show tasks: "assignedTasks a = []"
    by (simp add: f(6) relatedEntities_none [OF no(1)])
  show "teamMembers a = []"
    by (simp add: f(7) relatedEntities_none [OF no(2)])
  show tt: "totalTasks a = 0"
    by (simp add: f(3) tasks)
  show ip: "inProgressTasks a = 0"
    by (simp add: f(4) tasks)
  assume "case capacity a of None \<Rightarrow> True
        | Some c \<Rightarrow> c = [] \<or> (\<exists>neg n. parseInt c = PInt neg n \<and> n \<noteq> 0)"
  then show "usagePercentage a = Num 0"
    by (simp add: f(5) tt ip usagePercentageOf_idle)
qed

theorem requires_uses_never_created_witness:
  "via_createRelations \<lparr>entities = [projectP1, resourceS], relations = [relSP]\<rparr> \<and>
   relationType relTS = ''requires'' \<and>
   (\<exists>err. createRelations [relTS]
            (Some \<lparr>entities = [projectP1, resourceS, taskT], relations = [relSP]\<rparr>) =
          (Inl err, Some \<lparr>entities = [projectP1, resourceS, taskT], relations = [relSP]\<rparr>)) \<and>
   getResourceAllocation noDates ''P1'' None
     (Some \<lparr>entities = [projectP1, resourceS], relations = [relSP]\<rparr>) =
   Inr \<lparr>allocatedProject = projectP1,
        resources = [\<lparr>resource = resourceS, resourceType = None, availability = None,
                      capacity = Some ''4 seats'', cost = None, totalTasks = 0,
                      inProgressTasks = 0, usagePercentage = Num 0, assignedTasks = [],
                      tasksByStatus = [], teamMembers = []\<rparr>],
        totalResources = 1, overallocatedCount = 0, underutilizedCount = 0,
        overallocatedResources = [], underutilizedResources = []\<rparr>"
proof -
  let ?g0 = "\<lparr>entities = [projectP1, resourceS], relations = []\<rparr>"
  let ?g1 = "\<lparr>entities = [projectP1, resourceS], relations = [relSP]\<rparr>"
  let ?g2 = "\<lparr>entities = [projectP1, resourceS, taskT], relations = [relSP]\<rparr>"
  let ?a = "\<lparr>resource = resourceS, resourceType = None, availability = None,
                      capacity = Some ''4 seats'', cost = None, totalTasks = 0,
                      inProgressTasks = 0, usagePercentage = Num 0, assignedTasks = [],
                      tasksByStatus = [], teamMembers = []\<rparr>"
  let ?res = "\<lparr>allocatedProject = projectP1, resources = [?a],
        totalResources = 1, overallocatedCount = 0, underutilizedCount = 0,
        overallocatedResources = [], underutilizedResources = []\<rparr>"
  have base: "via_createRelations ?g0"
    by (rule no_relations) simp
  have step: "createRelations [relSP] (Some ?g0) = (Inr ?g1, Some ?g1)"
    by code_simp
  have via: "via_createRelations ?g1"
    by (rule created [OF base step])
  have ty: "relationType relTS = ''requires''"
    by (simp add: relTS_def)
  then have bad: "\<exists>r\<in>set [relTS]. relationType r = ''requires'' \<or> relationType r = ''uses''"
    by simp
  have run: "getResourceAllocation noDates ''P1'' None (Some ?g1) = Inr ?res"
    by code_simp
  from requires_uses_never_created [of "[relTS]" "Some ?g2" ?g1 noDates "''P1''" None ?res ?a] bad
  have "\<exists>err. createRelations [relTS] (Some ?g2) = (Inl err, Some ?g2)"
    by blast
  with via ty run show ?thesis
    by blast
qed

end
